theory Spec2Isabelle
  imports Complex_Main "HOL-Library.Sublist" "HOL-Library.Multiset"
begin

section \<open>JavaScript values used by the dashboard page\<close>

text \<open>
  A JavaScript number is modelled as \<open>NaN\<close>, one of the two infinities, or a finite
  value. Finite values are exact rationals: the rounding of IEEE doubles and the sign of
  zero are not modelled. Nothing below depends on either.
\<close>

datatype jsnum = NaN | NegInf | Fin rat | PosInf

text \<open>\<open>a + b\<close> on numbers.\<close>

fun js_add :: "jsnum \<Rightarrow> jsnum \<Rightarrow> jsnum" where
  "js_add NaN _ = NaN"
| "js_add _ NaN = NaN"
| "js_add (Fin a) (Fin b) = Fin (a + b)"
| "js_add PosInf NegInf = NaN"
| "js_add NegInf PosInf = NaN"
| "js_add PosInf _ = PosInf"
| "js_add _ PosInf = PosInf"
| "js_add NegInf _ = NegInf"
| "js_add _ NegInf = NegInf"

fun js_neg :: "jsnum \<Rightarrow> jsnum" where
  "js_neg NaN = NaN"
| "js_neg NegInf = PosInf"
| "js_neg PosInf = NegInf"
| "js_neg (Fin a) = Fin (- a)"

text \<open>\<open>a - b\<close> on numbers.\<close>

definition js_sub :: "jsnum \<Rightarrow> jsnum \<Rightarrow> jsnum" where
  "js_sub a b = js_add a (js_neg b)"

text \<open>\<open>a / n\<close> where \<open>n\<close> is the \<open>length\<close> of an array: \<open>0 / 0\<close> is \<open>NaN\<close>.\<close>

fun js_div_length :: "jsnum \<Rightarrow> nat \<Rightarrow> jsnum" where
  "js_div_length NaN n = NaN"
| "js_div_length PosInf n = PosInf"
| "js_div_length NegInf n = NegInf"
| "js_div_length (Fin a) n =
     (if n = 0 then (if a = 0 then NaN else if 0 < a then PosInf else NegInf)
      else Fin (a / of_nat n))"

text \<open>\<open>a < b\<close>, \<open>a <= b\<close> and \<open>a >= b\<close> on numbers: every comparison with \<open>NaN\<close> is false.\<close>

fun js_less :: "jsnum \<Rightarrow> jsnum \<Rightarrow> bool" where
  "js_less NaN _ = False"
| "js_less _ NaN = False"
| "js_less (Fin a) (Fin b) = (a < b)"
| "js_less NegInf NegInf = False"
| "js_less NegInf _ = True"
| "js_less _ NegInf = False"
| "js_less PosInf _ = False"
| "js_less _ PosInf = True"

fun js_le :: "jsnum \<Rightarrow> jsnum \<Rightarrow> bool" where
  "js_le NaN _ = False"
| "js_le _ NaN = False"
| "js_le a b = (a = b \<or> js_less a b)"

definition js_ge :: "jsnum \<Rightarrow> jsnum \<Rightarrow> bool" where
  "js_ge a b = js_le b a"

text \<open>\<open>isNaN\<close> on a number, and the truthiness of a number (\<open>0\<close> and \<open>NaN\<close> are falsy).\<close>

definition isNaN_num :: "jsnum \<Rightarrow> bool" where
  "isNaN_num a = (a = NaN)"

definition truthy_num :: "jsnum \<Rightarrow> bool" where
  "truthy_num a = (a \<noteq> NaN \<and> a \<noteq> Fin 0)"

text \<open>\<open>a || 0\<close> on a number.\<close>

definition or_zero :: "jsnum \<Rightarrow> jsnum" where
  "or_zero a = (if truthy_num a then a else Fin 0)"

text \<open>
  A cell of the uploaded table has the TypeScript type \<open>any\<close>. The CSV parser yields
  strings, the spreadsheet parser strings and numbers, and a read past the end of a short
  row yields \<open>undefined\<close>. A row is a dense array of cells.
\<close>

datatype cell = CUndef | CNum jsnum | CStr string

type_synonym row = "cell list"

text \<open>
  A parsed JSON value; an object is the list of its keys and values. The value
  \<open>undefined\<close> of a missing property is \<open>None\<close> of \<open>json option\<close>.
\<close>

datatype json =
  JNull | JBool bool | JNum jsnum | JStr string | JArr "json list" | JObj "(string \<times> json) list"

text \<open>
  The functions of the JavaScript runtime that the page and the route call and that are
  not part of this repository. They are parameters of the model: every theorem holds for
  each choice of them, unless it states what it needs of one.
\<close>

record builtins =
  toNumber :: "string \<Rightarrow> jsnum"           \<comment> \<open>\<open>Number(s)\<close> on a string\<close>
  numToString :: "jsnum \<Rightarrow> string"        \<comment> \<open>\<open>String(n)\<close> on a number\<close>
  parseFloatStr :: "string \<Rightarrow> jsnum"      \<comment> \<open>\<open>parseFloat(s)\<close> on a string\<close>
  parseIntStr :: "string \<Rightarrow> jsnum"        \<comment> \<open>\<open>parseInt(s)\<close> on a string\<close>
  dateParse :: "string \<Rightarrow> jsnum"          \<comment> \<open>\<open>Date.parse(s)\<close>: a time value or \<open>NaN\<close>\<close>
  toLowerCase :: "string \<Rightarrow> string"       \<comment> \<open>\<open>s.toLowerCase()\<close>\<close>
  localeCompare :: "string \<Rightarrow> string \<Rightarrow> int" \<comment> \<open>\<open>a.localeCompare(b)\<close>\<close>
  trim :: "string \<Rightarrow> string"              \<comment> \<open>\<open>s.trim()\<close>\<close>
  jsonParse :: "string \<Rightarrow> json option"    \<comment> \<open>\<open>JSON.parse(s)\<close>: \<open>None\<close> when it throws\<close>
  implSort :: "(row \<Rightarrow> row \<Rightarrow> jsnum) \<Rightarrow> row list \<Rightarrow> row list"
    \<comment> \<open>\<open>rows.sort(cmp)\<close> where the language standard leaves the order to the runtime\<close>

section \<open>Arrays\<close>

text \<open>\<open>xs[i]\<close>: a read outside the array yields \<open>undefined\<close>.\<close>

definition at_index :: "row \<Rightarrow> int \<Rightarrow> cell" where
  "at_index xs i = (if 0 \<le> i \<and> i < int (length xs) then xs ! nat i else CUndef)"

text \<open>\<open>xs.indexOf(x)\<close>: the first position of \<open>x\<close>, or \<open>-1\<close>.\<close>

fun indexOf :: "'a list \<Rightarrow> 'a \<Rightarrow> int" where
  "indexOf [] x = - 1"
| "indexOf (y # ys) x =
     (if y = x then 0 else (let i = indexOf ys x in if i < 0 then - 1 else i + 1))"

text \<open>\<open>xs.findIndex(p)\<close>: the first position whose element satisfies \<open>p\<close>, or \<open>-1\<close>.\<close>

fun findIndex :: "'a list \<Rightarrow> ('a \<Rightarrow> bool) \<Rightarrow> int" where
  "findIndex [] p = - 1"
| "findIndex (y # ys) p =
     (if p y then 0 else (let i = findIndex ys p in if i < 0 then - 1 else i + 1))"

text \<open>
  \<open>xs.slice(start, end)\<close>: a negative index counts from the end of the array, and both
  indices are clamped to the array.
\<close>

definition slice :: "'a list \<Rightarrow> int \<Rightarrow> int \<Rightarrow> 'a list" where
  "slice xs start end =
     (let len = int (length xs);
          k = (if start < 0 then max (len + start) 0 else min start len);
          final = (if end < 0 then max (len + end) 0 else min end len)
      in take (nat (final - k)) (drop (nat k) xs))"

text \<open>\<open>xs.slice(start)\<close>: up to the end of the array.\<close>

definition slice_from :: "'a list \<Rightarrow> int \<Rightarrow> 'a list" where
  "slice_from xs start = slice xs start (int (length xs))"

text \<open>\<open>s.includes(t)\<close> on strings: \<open>t\<close> occurs in \<open>s\<close> as a contiguous substring.\<close>

fun str_includes :: "string \<Rightarrow> string \<Rightarrow> bool" where
  "str_includes [] t = (t = [])"
| "str_includes (c # s) t = (prefix t (c # s) \<or> str_includes s t)"

section \<open>Pagination\<close>

definition rowsPerPage :: int where
  "rowsPerPage = 10"

text \<open>
  \<open>paginatedRows\<close>: \<open>filteredData.slice(start, start + rowsPerPage)\<close> with
  \<open>start = (currentPage - 1) * rowsPerPage\<close>.
\<close>

definition paginatedRows :: "'a list \<Rightarrow> int \<Rightarrow> 'a list" where
  "paginatedRows filteredData currentPage =
     (let start = (currentPage - 1) * rowsPerPage
      in slice filteredData start (start + rowsPerPage))"

text \<open>\<open>totalPages\<close>: \<open>Math.ceil(filteredData.length / rowsPerPage)\<close>.\<close>

definition totalPages :: "'a list \<Rightarrow> int" where
  "totalPages filteredData =
     \<lceil>(of_nat (length filteredData) :: rat) / of_int rowsPerPage\<rceil>"

text \<open>
  \<open>visiblePages\<close>. \<open>Array.from({length: n}, f)\<close> is empty when \<open>n\<close> is not positive.
\<close>

definition visiblePages :: "int \<Rightarrow> int \<Rightarrow> int list" where
  "visiblePages currentPage pages =
     (let maxPagesToShow = 5;
          start = max 1 (currentPage - 2);
          end = min pages (start + maxPagesToShow - 1);
          start = (if end - start < maxPagesToShow - 1
                   then max 1 (end - maxPagesToShow + 1) else start)
      in map (\<lambda>i. start + int i) [0 ..< nat (end - start + 1)])"

section \<open>The filter pipeline: \<open>filteredData\<close>\<close>

text \<open>\<open>String(cell)\<close> and \<open>Number(cell)\<close> (the coercion that \<open>isNaN\<close> and \<open>-\<close> apply).\<close>

definition String_cell :: "'b builtins_scheme \<Rightarrow> cell \<Rightarrow> string" where
  "String_cell B c =
     (case c of CUndef \<Rightarrow> ''undefined'' | CNum n \<Rightarrow> numToString B n | CStr s \<Rightarrow> s)"

definition Number_cell :: "'b builtins_scheme \<Rightarrow> cell \<Rightarrow> jsnum" where
  "Number_cell B c = (case c of CUndef \<Rightarrow> NaN | CNum n \<Rightarrow> n | CStr s \<Rightarrow> toNumber B s)"

definition isNaN_cell :: "'b builtins_scheme \<Rightarrow> cell \<Rightarrow> bool" where
  "isNaN_cell B c = isNaN_num (Number_cell B c)"

text \<open>
  Text-based filtering: a row is kept when some cell, as a lower-case string, includes
  the lower-case filter text.
\<close>

definition matchesText :: "'b builtins_scheme \<Rightarrow> string \<Rightarrow> row \<Rightarrow> bool" where
  "matchesText B filterText r =
     list_ex (\<lambda>c. str_includes (toLowerCase B (String_cell B c)) (toLowerCase B filterText)) r"

definition textFilter :: "'b builtins_scheme \<Rightarrow> string \<Rightarrow> row list \<Rightarrow> row list" where
  "textFilter B filterText rows =
     (if filterText \<noteq> [] then filter (matchesText B filterText) rows else rows)"

text \<open>
  \<open>new Date(v)\<close>, as the time value of the date (\<open>NaN\<close> for an invalid date). A number
  is clipped to the range of time values and truncated to an integer.
\<close>

definition timeClip :: "jsnum \<Rightarrow> jsnum" where
  "timeClip n =
     (case n of
        Fin q \<Rightarrow> (if \<bar>q\<bar> \<le> 8640000000000000
                  then Fin (of_int (if 0 \<le> q then \<lfloor>q\<rfloor> else \<lceil>q\<rceil>)) else NaN)
      | _ \<Rightarrow> NaN)"

definition new_Date :: "'b builtins_scheme \<Rightarrow> cell \<Rightarrow> jsnum" where
  "new_Date B c =
     (case c of CUndef \<Rightarrow> NaN | CNum n \<Rightarrow> timeClip n | CStr s \<Rightarrow> dateParse B s)"

record dateRange =
  dr_start :: string
  dr_end :: string

text \<open>
  The predicate of the date range filter. \<open>startDate\<close> and \<open>endDate\<close> are \<open>null\<close>
  (\<open>None\<close>) when the bound is the empty string, and a date object otherwise; a date
  object is truthy also when it is invalid. \<open>>=\<close> and \<open><=\<close> compare the time values.
  No call in the body of the \<open>try\<close> throws, so its \<open>catch\<close> branch is never taken.
\<close>

definition dateInRange :: "'b builtins_scheme \<Rightarrow> dateRange \<Rightarrow> int \<Rightarrow> row \<Rightarrow> bool" where
  "dateInRange B drange dateColumnIndex r =
     (let dateValue = new_Date B (at_index r dateColumnIndex);
          startDate = (if dr_start drange \<noteq> [] then Some (dateParse B (dr_start drange)) else None);
          endDate = (if dr_end drange \<noteq> [] then Some (dateParse B (dr_end drange)) else None)
      in case (startDate, endDate) of
           (Some s, Some e) \<Rightarrow> js_ge dateValue s \<and> js_le dateValue e
         | (Some s, None) \<Rightarrow> js_ge dateValue s
         | (None, Some e) \<Rightarrow> js_le dateValue e
         | (None, None) \<Rightarrow> True)"

definition isDateColumn :: "'b builtins_scheme \<Rightarrow> string \<Rightarrow> bool" where
  "isDateColumn B col =
     (str_includes (toLowerCase B col) ''date'' \<or> str_includes (toLowerCase B col) ''time'')"

definition dateFilter ::
  "'b builtins_scheme \<Rightarrow> dateRange \<Rightarrow> string list \<Rightarrow> row list \<Rightarrow> row list" where
  "dateFilter B drange columns rows =
     (if dr_start drange \<noteq> [] \<or> dr_end drange \<noteq> [] then
        (let dateColumnIndex = findIndex columns (isDateColumn B)
         in if dateColumnIndex \<noteq> - 1
            then filter (dateInRange B drange dateColumnIndex) rows else rows)
      else rows)"

text \<open>Column selection filtering.\<close>

definition columnFilter :: "string list \<Rightarrow> string list \<Rightarrow> row list \<Rightarrow> row list" where
  "columnFilter selectedColumns columns rows =
     (if length selectedColumns > 0 \<and> length selectedColumns < length columns then
        (let selectedIndices = map (indexOf columns) selectedColumns
         in map (\<lambda>r. map (at_index r) selectedIndices) rows)
      else rows)"

text \<open>
  Sorting: the comparator passed to \<open>sort\<close>. No call in it throws, so its \<open>catch\<close>
  branch (which returns \<open>0\<close>) is never taken.
\<close>

datatype direction = Asc | Desc

definition compareRows ::
  "'b builtins_scheme \<Rightarrow> nat \<Rightarrow> direction \<Rightarrow> row \<Rightarrow> row \<Rightarrow> jsnum" where
  "compareRows B sortColumn sortDirection a b =
     (let valA = at_index a (int sortColumn);
          valB = at_index b (int sortColumn)
      in if \<not> isNaN_cell B valA \<and> \<not> isNaN_cell B valB then
           (if sortDirection = Asc
            then js_sub (Number_cell B valA) (Number_cell B valB)
            else js_sub (Number_cell B valB) (Number_cell B valA))
         else
           (if sortDirection = Asc
            then Fin (of_int (localeCompare B (String_cell B valA) (String_cell B valB)))
            else Fin (of_int (localeCompare B (String_cell B valB) (String_cell B valA)))))"

text \<open>
  \<open>Array.prototype.sort\<close> with a comparator. A comparator result greater than zero
  puts the first argument after the second one; \<open>NaN\<close> counts as zero.

  The language standard fixes the result of the sort when the comparator is a consistent
  ordering of the elements of the array: the result is then the one ordering of the
  elements in which no element comes after a later one and elements that compare as
  equal keep their order (the sort is stable). The stable insertion sort computes it.
  Otherwise the standard leaves the order to the runtime (\<open>implSort\<close>); the result is
  still an ordering of the elements of the array.
\<close>

fun insertBy :: "('a \<Rightarrow> 'a \<Rightarrow> jsnum) \<Rightarrow> 'a \<Rightarrow> 'a list \<Rightarrow> 'a list" where
  "insertBy cmp x [] = [x]"
| "insertBy cmp x (y # ys) =
     (if js_less (Fin 0) (cmp x y) then y # insertBy cmp x ys else x # y # ys)"

definition stableSort :: "('a \<Rightarrow> 'a \<Rightarrow> jsnum) \<Rightarrow> 'a list \<Rightarrow> 'a list" where
  "stableSort cmp xs = foldr (insertBy cmp) xs []"

text \<open>
  The comparator is a consistent ordering of the elements of \<open>xs\<close>: of two elements
  never each comes after the other, and ``does not come after'' is transitive.
\<close>

definition consistentOn :: "('a \<Rightarrow> 'a \<Rightarrow> jsnum) \<Rightarrow> 'a list \<Rightarrow> bool" where
  "consistentOn cmp xs =
     list_all (\<lambda>a. list_all (\<lambda>b.
         (if js_less (Fin 0) (cmp a b) then \<not> js_less (Fin 0) (cmp b a) else True) \<and>
         list_all (\<lambda>c.
           if \<not> js_less (Fin 0) (cmp a b) \<and> \<not> js_less (Fin 0) (cmp b c)
           then \<not> js_less (Fin 0) (cmp a c) else True) xs) xs) xs"

definition js_sort ::
  "'b builtins_scheme \<Rightarrow> (row \<Rightarrow> row \<Rightarrow> jsnum) \<Rightarrow> row list \<Rightarrow> row list" where
  "js_sort B cmp xs =
     (if consistentOn cmp xs then stableSort cmp xs
      else (let ys = implSort B cmp xs in if mset ys = mset xs then ys else xs))"

definition sortRows ::
  "'b builtins_scheme \<Rightarrow> nat option \<Rightarrow> direction \<Rightarrow> row list \<Rightarrow> row list" where
  "sortRows B sortColumn sortDirection rows =
     (case sortColumn of
        None \<Rightarrow> rows
      | Some col \<Rightarrow> js_sort B (compareRows B col sortDirection) rows)"

text \<open>
  \<open>filteredData\<close>, a function of the dependencies of the memo. None of the stages
  throws, so the outer \<open>catch\<close> branch (which returns the empty array) is never taken.
\<close>

definition filteredData ::
  "'b builtins_scheme \<Rightarrow> row list \<Rightarrow> string \<Rightarrow> dateRange \<Rightarrow> string list \<Rightarrow> nat option \<Rightarrow>
   direction \<Rightarrow> string list \<Rightarrow> row list" where
  "filteredData B data filterText drange selectedColumns sortColumn sortDirection columns =
     (let rows = slice_from data 1;
          rows = textFilter B filterText rows;
          rows = dateFilter B drange columns rows;
          rows = columnFilter selectedColumns columns rows
      in sortRows B sortColumn sortDirection rows)"

text \<open>
  The sort statement on a store of arrays, to tell the array that is sorted from the
  array that is read: \<open>[...rows]\<close> allocates a new array with the elements of \<open>rows\<close>,
  and \<open>sort\<close> reorders the array it is called on and returns it. An array is named by
  its position in the store; a reference that the program holds names an array of the
  store.
\<close>

type_synonym store = "row list list"

definition spread :: "store \<Rightarrow> nat \<Rightarrow> store \<times> nat" where
  "spread h r = (h @ [h ! r], length h)"

definition sort_in_place ::
  "'b builtins_scheme \<Rightarrow> (row \<Rightarrow> row \<Rightarrow> jsnum) \<Rightarrow> store \<Rightarrow> nat \<Rightarrow> store \<times> nat" where
  "sort_in_place B cmp h r = (h[r := js_sort B cmp (h ! r)], r)"

definition sortStatement ::
  "'b builtins_scheme \<Rightarrow> nat option \<Rightarrow> direction \<Rightarrow> store \<Rightarrow> nat \<Rightarrow> store \<times> nat" where
  "sortStatement B sortColumn sortDirection h rows =
     (case sortColumn of
        None \<Rightarrow> (h, rows)
      | Some col \<Rightarrow>
          (let (h1, copy) = spread h rows
           in sort_in_place B (compareRows B col sortDirection) h1 copy))"

section \<open>Metrics\<close>

record metrics =
  revenue :: jsnum
  users :: jsnum
  conversions :: jsnum
  growth :: jsnum

text \<open>
  \<open>parseFloat(cell)\<close> and \<open>parseInt(cell)\<close>: the argument is converted to a string
  first; the string \<open>undefined\<close> parses to \<open>NaN\<close>.
\<close>

definition parseFloat_cell :: "'b builtins_scheme \<Rightarrow> cell \<Rightarrow> jsnum" where
  "parseFloat_cell B c =
     (case c of CUndef \<Rightarrow> NaN
      | CNum n \<Rightarrow> parseFloatStr B (numToString B n)
      | CStr s \<Rightarrow> parseFloatStr B s)"

definition parseInt_cell :: "'b builtins_scheme \<Rightarrow> cell \<Rightarrow> jsnum" where
  "parseInt_cell B c =
     (case c of CUndef \<Rightarrow> NaN
      | CNum n \<Rightarrow> parseIntStr B (numToString B n)
      | CStr s \<Rightarrow> parseIntStr B s)"

text \<open>\<open>rows.reduce((sum, row) => sum + (f(row[i]) || 0), 0)\<close>.\<close>

definition sumColumn :: "(cell \<Rightarrow> jsnum) \<Rightarrow> int \<Rightarrow> row list \<Rightarrow> jsnum" where
  "sumColumn f i rows = foldl (\<lambda>sum r. js_add sum (or_zero (f (at_index r i)))) (Fin 0) rows"

text \<open>The body of the \<open>try\<close> block of the metrics effect. Nothing in it throws.\<close>

definition computeMetrics :: "'b builtins_scheme \<Rightarrow> row list \<Rightarrow> string list \<Rightarrow> metrics" where
  "computeMetrics B data columns =
     (let header = columns;
          rows = slice_from data 1;
          revenueIndex = indexOf header ''Revenue'';
          usersIndex = indexOf header ''Users'';
          conversionsIndex = indexOf header ''Conversions'';
          growthIndex = indexOf header ''Growth'';
          totalRevenue = sumColumn (parseFloat_cell B) revenueIndex rows;
          totalUsers = sumColumn (parseInt_cell B) usersIndex rows;
          totalConversions = sumColumn (parseInt_cell B) conversionsIndex rows;
          avgGrowth = js_div_length (sumColumn (parseFloat_cell B) growthIndex rows) (length rows)
      in \<lparr>revenue = totalRevenue, users = totalUsers, conversions = totalConversions,
          growth = avgGrowth\<rparr>)"

definition zeroMetrics :: metrics where
  "zeroMetrics = \<lparr>revenue = Fin 0, users = Fin 0, conversions = Fin 0, growth = Fin 0\<rparr>"

section \<open>Values of the resolver response\<close>

text \<open>Truthiness of a value.\<close>

fun truthy :: "json option \<Rightarrow> bool" where
  "truthy None = False"
| "truthy (Some JNull) = False"
| "truthy (Some (JBool b)) = b"
| "truthy (Some (JNum n)) = truthy_num n"
| "truthy (Some (JStr s)) = (s \<noteq> [])"
| "truthy (Some (JArr _)) = True"
| "truthy (Some (JObj _)) = True"

datatype js_error = TypeError

text \<open>
  \<open>v.name\<close> for a name that is no built-in property: reading a property of \<open>null\<close>
  throws, an object yields the value stored under the name, every other value yields
  \<open>undefined\<close>.
\<close>

fun getProp :: "json \<Rightarrow> string \<Rightarrow> js_error + json option" where
  "getProp JNull name = Inl TypeError"
| "getProp (JObj kvs) name = Inr (map_of kvs name)"
| "getProp _ name = Inr None"

section \<open>The page state\<close>

text \<open>
  The state of the page component, one field for each \<open>useState\<close>. The three fields of
  the chart selection are declared as strings; the values stored into them from the
  resolver response have the type \<open>any\<close>, so here they hold JSON values.
\<close>

record page =
  data :: "row list"
  columns :: "string list"
  xColumn :: json
  yColumn :: json
  chartType :: json
  instruction :: string
  metrics :: metrics
  filterText :: string
  sortColumn :: "nat option"
  sortDirection :: direction
  currentPage :: int
  dateRange :: dateRange
  selectedColumns :: "string list"
  isLoading :: bool
  isExporting :: bool

definition initialPage :: page where
  "initialPage =
     \<lparr>data = [], columns = [], xColumn = JStr [], yColumn = JStr [], chartType = JStr ''bar'',
      instruction = [], metrics = zeroMetrics, filterText = [], sortColumn = None,
      sortDirection = Asc, currentPage = 1, dateRange = \<lparr>dr_start = [], dr_end = []\<rparr>,
      selectedColumns = [], isLoading = False, isExporting = False\<rparr>"

text \<open>
  The metrics effect, run when \<open>data\<close> or \<open>columns\<close> change: it stores new metrics only
  when the table has a data row and a header.
\<close>

definition metricsEffect :: "'b builtins_scheme \<Rightarrow> page \<Rightarrow> page" where
  "metricsEffect B st =
     (if length (data st) > 1 \<and> length (columns st) > 0
      then st\<lparr>metrics := computeMetrics B (data st) (columns st)\<rparr>
      else st)"

section \<open>Chart data\<close>

text \<open>
  \<open>columns.includes(v)\<close> and \<open>columns.indexOf(v)\<close> for a value \<open>v\<close>: only a string is
  equal to a column name.
\<close>

definition columnsInclude :: "string list \<Rightarrow> json \<Rightarrow> bool" where
  "columnsInclude cols v = (case v of JStr s \<Rightarrow> s \<in> set cols | _ \<Rightarrow> False)"

definition columnsIndexOf :: "string list \<Rightarrow> json \<Rightarrow> int" where
  "columnsIndexOf cols v = (case v of JStr s \<Rightarrow> indexOf cols s | _ \<Rightarrow> - 1)"

text \<open>
  \<open>chartData\<close>: the labels and the single dataset (its label and its data). The colour
  constants of the dataset are left out.
\<close>

record chartData =
  labels :: "cell list"
  datasetLabel :: json
  datasetData :: "jsnum list"

definition chartData :: "'b builtins_scheme \<Rightarrow> page \<Rightarrow> chartData" where
  "chartData B st =
     \<lparr>labels =
        (if truthy (Some (xColumn st)) \<and> columnsInclude (columns st) (xColumn st)
         then map (\<lambda>r. at_index r (columnsIndexOf (columns st) (xColumn st)))
                (slice_from (data st) 1)
         else []),
      datasetLabel = yColumn st,
      datasetData =
        (if truthy (Some (yColumn st)) \<and> columnsInclude (columns st) (yColumn st)
         then map (\<lambda>r. Number_cell B (at_index r (columnsIndexOf (columns st) (yColumn st))))
                (slice_from (data st) 1)
         else [])\<rparr>"

text \<open>\<open>renderChart\<close>: the chart component that draws \<open>chartData\<close>.\<close>

datatype chartComponent = Bar | Line | Pie | Doughnut

definition renderChart :: "'b builtins_scheme \<Rightarrow> page \<Rightarrow> chartComponent \<times> chartData" where
  "renderChart B st =
     (if chartType st = JStr ''line'' then (Line, chartData B st)
      else if chartType st = JStr ''pie'' then (Pie, chartData B st)
      else if chartType st = JStr ''donut'' then (Doughnut, chartData B st)
      else (Bar, chartData B st))"

section \<open>Natural language chart generation\<close>

text \<open>
  What \<open>fetch("/api/mistral")\<close> gives the page: the request fails, or a response with a
  status and a body arrives. The body is \<open>None\<close> when it is no JSON text, in which case
  \<open>res.json()\<close> throws.
\<close>

datatype fetched = Rejected | Response int "json option"

definition ok :: "int \<Rightarrow> bool" where
  "ok status = (200 \<le> status \<and> status \<le> 299)"

datatype alert = PleaseUpload | CouldNotUnderstand json | ErrorProcessing

text \<open>
  \<open>interpretInstruction\<close>: the state after the call and the alert it shows, if any. An
  exception thrown in the \<open>try\<close> block is caught and reported; the \<open>finally\<close> block
  resets \<open>isLoading\<close> on every path.
\<close>

definition interpretInstruction :: "fetched \<Rightarrow> page \<Rightarrow> page \<times> alert option" where
  "interpretInstruction res st =
     (if instruction st = [] \<or> length (columns st) = 0
      then (st\<lparr>isLoading := False\<rparr>, Some PleaseUpload)
      else
        (case res of
           Rejected \<Rightarrow> (st\<lparr>isLoading := False\<rparr>, Some ErrorProcessing)
         | Response status body \<Rightarrow>
             if \<not> ok status then (st\<lparr>isLoading := False\<rparr>, Some ErrorProcessing)
             else
               (case body of
                  None \<Rightarrow> (st\<lparr>isLoading := False\<rparr>, Some ErrorProcessing)
                | Some result \<Rightarrow>
                    (case (getProp result ''chartType'', getProp result ''xColumn'',
                           getProp result ''yColumn'') of
                       (Inr ct, Inr xc, Inr yc) \<Rightarrow>
                         (case (ct, xc, yc) of
                            (Some c, Some x, Some y) \<Rightarrow>
                              if truthy ct \<and> truthy xc \<and> truthy yc
                              then (st\<lparr>chartType := c, xColumn := x, yColumn := y,
                                       isLoading := False\<rparr>, None)
                              else (st\<lparr>isLoading := False\<rparr>,
                                    Some (CouldNotUnderstand result))
                          | _ \<Rightarrow> (st\<lparr>isLoading := False\<rparr>,
                                  Some (CouldNotUnderstand result)))
                     | _ \<Rightarrow> (st\<lparr>isLoading := False\<rparr>, Some ErrorProcessing)))))"

section \<open>The route \<open>POST /api/mistral\<close>\<close>

text \<open>
  What the call of the completion service gives the route: the request fails, or a
  response arrives with its \<open>ok\<close> flag, its text and its body as JSON (\<open>None\<close> when
  \<open>response.json()\<close> throws).
\<close>

datatype upstream = UpstreamFailed | Upstream bool string "json option"

text \<open>
  \<open>v?.name\<close> and \<open>v?.[0]\<close>: \<open>undefined\<close> when \<open>v\<close> is \<open>undefined\<close> or \<open>null\<close>.
\<close>

fun optProp :: "json option \<Rightarrow> string \<Rightarrow> json option" where
  "optProp (Some (JObj kvs)) name = map_of kvs name"
| "optProp _ name = None"

fun optFirst :: "json option \<Rightarrow> json option" where
  "optFirst (Some (JArr (v # vs))) = Some v"
| "optFirst (Some (JStr (c # cs))) = Some (JStr [c])"
| "optFirst (Some (JObj kvs)) = map_of kvs ''0''"
| "optFirst _ = None"

definition errorBody :: "string \<Rightarrow> json" where
  "errorBody msg = JObj [(''error'', JStr msg)]"

text \<open>
  \<open>POST\<close>: the status and the JSON body of the response, from the body of the request
  (\<open>None\<close> when \<open>req.json()\<close> throws), the API key of the environment and the answer of
  the completion service. Every exception outside the inner \<open>try\<close> reaches the outer
  \<open>catch\<close>: destructuring \<open>null\<close>, \<open>columns.join\<close> on a value that is no array, a failed
  request, a body that is no JSON, and \<open>trim\<close> on a content that is no string.
\<close>

definition POST ::
  "'b builtins_scheme \<Rightarrow> json option \<Rightarrow> string option \<Rightarrow> upstream \<Rightarrow> int \<times> json" where
  "POST B reqBody apiKey up =
     (let failed = (500, errorBody ''Failed to interpret instruction'')
      in case reqBody of
           None \<Rightarrow> failed
         | Some JNull \<Rightarrow> failed
         | Some req \<Rightarrow>
             if apiKey = None \<or> apiKey = Some [] then (500, errorBody ''MISTRAL_API_KEY is not set'')
             else
               (case optProp (Some req) ''columns'' of
                  Some (JArr cols) \<Rightarrow>
                    (case up of
                       UpstreamFailed \<Rightarrow> failed
                     | Upstream isOk text body \<Rightarrow>
                         if \<not> isOk
                         then (500, JObj [(''error'', JStr ''Mistral API error''),
                                          (''details'', JStr text)])
                         else
                           (case body of
                              None \<Rightarrow> failed
                            | Some d \<Rightarrow>
                                (case optProp (optFirst (optProp (Some d) ''choices'')) ''message'' of
                                   None \<Rightarrow> (500, errorBody ''Invalid JSON response'')
                                 | Some message \<Rightarrow>
                                     (case optProp (Some message) ''content'' of
                                        None \<Rightarrow> (500, errorBody ''Invalid JSON response'')
                                      | Some JNull \<Rightarrow> (500, errorBody ''Invalid JSON response'')
                                      | Some (JStr content) \<Rightarrow>
                                          (case jsonParse B (trim B content) of
                                             Some parsed \<Rightarrow> (200, parsed)
                                           | None \<Rightarrow>
                                               (500, JObj [(''error'', JStr ''Invalid JSON response''),
                                                           (''raw'', JStr (trim B content))]))
                                      | Some _ \<Rightarrow> failed))))
                | _ \<Rightarrow> failed))"

text \<open>The response of the route as the page's \<open>fetch\<close> receives it.\<close>

definition routeResponse :: "int \<times> json \<Rightarrow> fetched" where
  "routeResponse r = Response (fst r) (Some (snd r))"

section \<open>A runtime for the worked examples\<close>

text \<open>
  The general theorems hold for every runtime. The worked examples need a concrete one.
  Each function below agrees with the JavaScript runtime on the arguments that the
  examples pass to it: unsigned decimal integers, dates of the form \<open>YYYY-MM-DD\<close>,
  words of ASCII letters and digits, and the one response text of the resolver example.
\<close>

definition digitValue :: "char \<Rightarrow> nat option" where
  "digitValue c =
     (let n = (of_char c :: nat) in if 48 \<le> n \<and> n \<le> 57 then Some (n - 48) else None)"

fun readDigits :: "nat \<Rightarrow> string \<Rightarrow> nat option" where
  "readDigits acc [] = Some acc"
| "readDigits acc (c # cs) =
     (case digitValue c of None \<Rightarrow> None | Some d \<Rightarrow> readDigits (10 * acc + d) cs)"

definition readNat :: "string \<Rightarrow> nat option" where
  "readNat s = (if s = [] then None else readDigits 0 s)"

definition isDigit :: "char \<Rightarrow> bool" where
  "isDigit c = (digitValue c \<noteq> None)"

definition exToNumber :: "string \<Rightarrow> jsnum" where
  "exToNumber s =
     (if s = [] then Fin 0
      else case readNat s of Some n \<Rightarrow> Fin (of_nat n) | None \<Rightarrow> NaN)"

definition exParseNumber :: "string \<Rightarrow> jsnum" where
  "exParseNumber s =
     (case readNat (takeWhile isDigit s) of Some n \<Rightarrow> Fin (of_nat n) | None \<Rightarrow> NaN)"

text \<open>Days from 1970-01-01 to a date of the proleptic Gregorian calendar.\<close>

definition daysFromCivil :: "int \<Rightarrow> int \<Rightarrow> int \<Rightarrow> int" where
  "daysFromCivil y m d =
     (let y' = (if m \<le> 2 then y - 1 else y);
          era = y' div 400;
          yoe = y' - era * 400;
          doy = (153 * (if 2 < m then m - 3 else m + 9) + 2) div 5 + d - 1;
          doe = yoe * 365 + yoe div 4 - yoe div 100 + doy
      in era * 146097 + doe - 719468)"

definition exDateParse :: "string \<Rightarrow> jsnum" where
  "exDateParse s =
     (if length s = 10 \<and> s ! 4 = CHR ''-'' \<and> s ! 7 = CHR ''-'' then
        (case (readNat (take 4 s), readNat (take 2 (drop 5 s)), readNat (drop 8 s)) of
           (Some y, Some m, Some d) \<Rightarrow>
             if 1 \<le> m \<and> m \<le> 12 \<and> 1 \<le> d \<and> d \<le> 31
             then Fin (of_int (daysFromCivil (int y) (int m) (int d) * 86400000))
             else NaN
         | _ \<Rightarrow> NaN)
      else NaN)"

definition exLowerChar :: "char \<Rightarrow> char" where
  "exLowerChar c =
     (let n = (of_char c :: nat) in if 65 \<le> n \<and> n \<le> 90 then char_of (n + 32) else c)"

fun exLocaleCompare :: "string \<Rightarrow> string \<Rightarrow> int" where
  "exLocaleCompare [] [] = 0"
| "exLocaleCompare [] (b # bs) = - 1"
| "exLocaleCompare (a # as) [] = 1"
| "exLocaleCompare (a # as) (b # bs) =
     (if (of_char a :: nat) < of_char b then - 1
      else if (of_char b :: nat) < of_char a then 1
      else exLocaleCompare as bs)"

fun showNat :: "nat \<Rightarrow> string" where
  "showNat n =
     (if n < 10 then [char_of (48 + n)] else showNat (n div 10) @ [char_of (48 + n mod 10)])"

declare showNat.simps [simp del]

text \<open>\<open>String(n)\<close> for an integer \<open>n\<close>; of another finite number only the integer part.\<close>

definition exNumToString :: "jsnum \<Rightarrow> string" where
  "exNumToString n =
     (case n of NaN \<Rightarrow> ''NaN'' | PosInf \<Rightarrow> ''Infinity'' | NegInf \<Rightarrow> ''-Infinity''
      | Fin q \<Rightarrow> (if q < 0 then CHR ''-'' # showNat (nat \<lfloor>- q\<rfloor>) else showNat (nat \<lfloor>q\<rfloor>)))"

definition exTrim :: "string \<Rightarrow> string" where
  "exTrim s = rev (dropWhile (\<lambda>c. c = CHR '' '') (rev (dropWhile (\<lambda>c. c = CHR '' '') s)))"

definition exResponseText :: string where
  "exResponseText = ''{\"chartType\":\"scatter\",\"xColumn\":\"Date\",\"yColumn\":\"Revenue\"}''"

definition exResponseJson :: json where
  "exResponseJson =
     JObj [(''chartType'', JStr ''scatter''), (''xColumn'', JStr ''Date''),
           (''yColumn'', JStr ''Revenue'')]"

definition exJsonParse :: "string \<Rightarrow> json option" where
  "exJsonParse s = (if s = exResponseText then Some exResponseJson else None)"

text \<open>
  The sort of the runtime on an array of fewer than 64 elements: the run at the start of
  the array is found (and reversed when it is strictly descending), and each further
  element is put into the part before it at the place a binary search finds.
\<close>

fun countRun :: "('a \<Rightarrow> 'a \<Rightarrow> jsnum) \<Rightarrow> bool \<Rightarrow> 'a \<Rightarrow> 'a list \<Rightarrow> nat" where
  "countRun cmp isDescending previous [] = 0"
| "countRun cmp isDescending previous (current # rest) =
     (let neg = js_less (cmp current previous) (Fin 0)
      in if (if isDescending then \<not> neg else neg) then 0
         else Suc (countRun cmp isDescending current rest))"

definition makeRun :: "('a \<Rightarrow> 'a \<Rightarrow> jsnum) \<Rightarrow> 'a list \<Rightarrow> 'a list \<times> 'a list" where
  "makeRun cmp xs =
     (case xs of
        x # y # rest \<Rightarrow>
          (let isDescending = js_less (cmp y x) (Fin 0);
               runLength = 2 + countRun cmp isDescending y rest
           in (if isDescending then rev (take runLength xs) else take runLength xs,
               drop runLength xs))
      | _ \<Rightarrow> (xs, []))"

function binarySearch :: "('a \<Rightarrow> 'a \<Rightarrow> jsnum) \<Rightarrow> 'a \<Rightarrow> 'a list \<Rightarrow> nat \<Rightarrow> nat \<Rightarrow> nat" where
  "binarySearch cmp pivot xs left right =
     (if left < right then
        (let mid = left + (right - left) div 2
         in if js_less (cmp pivot (xs ! mid)) (Fin 0)
            then binarySearch cmp pivot xs left mid
            else binarySearch cmp pivot xs (mid + 1) right)
      else left)"
  by pat_completeness auto
termination
  by (relation "measure (\<lambda>(cmp, pivot, xs, left, right). right - left)") auto

declare binarySearch.simps [simp del]

definition binaryInsert :: "('a \<Rightarrow> 'a \<Rightarrow> jsnum) \<Rightarrow> 'a list \<Rightarrow> 'a \<Rightarrow> 'a list" where
  "binaryInsert cmp front pivot =
     (let left = binarySearch cmp pivot front 0 (length front)
      in take left front @ pivot # drop left front)"

definition exImplSort :: "('a \<Rightarrow> 'a \<Rightarrow> jsnum) \<Rightarrow> 'a list \<Rightarrow> 'a list" where
  "exImplSort cmp xs = (let (run, rest) = makeRun cmp xs in foldl (binaryInsert cmp) run rest)"

definition exampleRuntime :: builtins where
  "exampleRuntime =
     \<lparr>toNumber = exToNumber, numToString = exNumToString, parseFloatStr = exParseNumber,
      parseIntStr = exParseNumber, dateParse = exDateParse, toLowerCase = map exLowerChar,
      localeCompare = exLocaleCompare, trim = exTrim, jsonParse = exJsonParse,
      implSort = exImplSort\<rparr>"

text \<open>
  The request of the page, the answer of the completion service and the page state of
  the resolver example.
\<close>

definition exRequest :: json where
  "exRequest =
     JObj [(''instruction'', JStr ''revenue by date''),
           (''columns'', JArr [JStr ''Date'', JStr ''Revenue''])]"

definition exCompletion :: json where
  "exCompletion =
     JObj [(''choices'',
            JArr [JObj [(''message'',
                         JObj [(''role'', JStr ''assistant''),
                               (''content'', JStr exResponseText)])]])]"

definition exPage :: page where
  "exPage =
     initialPage\<lparr>data := [[CStr ''Date'', CStr ''Revenue''], [CStr ''2024-01-01'', CStr ''100'']],
                 columns := [''Date'', ''Revenue''],
                 instruction := ''revenue by date''\<rparr>"

section \<open>Pagination: proofs\<close>

lemma totalPages_div: "totalPages xs = int ((length xs + 9) div 10)"
  unfolding totalPages_def rowsPerPage_def
  by (simp add: ceiling_divide_eq_div) linarith?

lemma totalPages_ceiling: "totalPages xs = \<lceil>real (length xs) / real_of_int rowsPerPage\<rceil>"
proof -
  have "\<lceil>real_of_int (int (length xs)) / real_of_int 10\<rceil> = int ((length xs + 9) div 10)"
    unfolding ceiling_divide_eq_div by linarith
  then show ?thesis by (simp add: totalPages_div rowsPerPage_def)
qed

lemma paginatedRows_pos:
  "1 \<le> p \<Longrightarrow> paginatedRows xs p = take 10 (drop (nat ((p - 1) * 10)) xs)"
  unfolding paginatedRows_def slice_def rowsPerPage_def Let_def
  by (auto simp: min_def max_def nat_diff_distrib take_all_iff)

lemma concat_chunks:
  "concat (map (\<lambda>k. take m (drop (k * m) xs)) [0 ..< n]) = take (n * m) xs"
proof (induction n)
  case 0
  show ?case by simp
next
  case (Suc n)
  have "take (n * m) xs @ take m (drop (n * m) xs) = take (n * m + m) xs"
    by (simp add: take_add)
  with Suc show ?case by (simp add: add.commute)
qed

lemma upto_as_map: "[1 .. int n] = map (\<lambda>k. int k + 1) [0 ..< n]"
proof (induction n)
  case 0
  show ?case by simp
next
  case (Suc n)
  have "[1 .. int (Suc n)] = [1 .. int n] @ [int n + 1]"
    by (simp add: upto_rec2 add.commute)
  with Suc show ?case by simp
qed

lemma pages_concat: "concat (map (paginatedRows xs) [1 .. totalPages xs]) = xs"
proof -
  let ?n = "(length xs + 9) div 10"
  have "map (paginatedRows xs) [1 .. int ?n] =
        map (\<lambda>k. take 10 (drop (k * 10) xs)) [0 ..< ?n]"
    by (simp add: upto_as_map paginatedRows_pos o_def nat_mult_distrib)
  then have "concat (map (paginatedRows xs) [1 .. int ?n]) = take (?n * 10) xs"
    by (simp only: concat_chunks)
  moreover have "length xs \<le> ?n * 10" by linarith
  ultimately show ?thesis by (simp add: totalPages_div)
qed

lemma page_beyond: "totalPages xs < p \<Longrightarrow> paginatedRows xs p = []"
proof -
  define n where "n = (length xs + 9) div 10"
  assume a: "totalPages xs < p"
  then have p1: "1 \<le> p" by (simp add: totalPages_div)
  have "length xs \<le> n * 10" unfolding n_def by linarith
  then have "int (length xs) \<le> int n * 10" by linarith
  moreover from a have "int n \<le> p - 1" by (simp add: totalPages_div n_def)
  ultimately have "int (length xs) \<le> (p - 1) * 10" by (simp add: algebra_simps)
  then have "length xs \<le> nat ((p - 1) * 10)" by linarith
  with p1 show ?thesis by (simp add: paginatedRows_pos)
qed

lemma map_upt_upto: "map (\<lambda>i. s + int i) [0 ..< nat (e - s + 1)] = [s .. e]"
proof (induction "nat (e - s + 1)" arbitrary: s)
  case 0
  then show ?case by simp
next
  case (Suc n)
  then have le: "s \<le> e" and n: "n = nat (e - (s + 1) + 1)" by linarith+
  have "[0 ..< Suc n] = 0 # map Suc [0 ..< n]"
    by (simp add: upt_conv_Cons map_Suc_upt del: upt_Suc)
  then have "map (\<lambda>i. s + int i) [0 ..< Suc n] = s # map (\<lambda>i. (s + 1) + int i) [0 ..< n]"
    by (simp add: o_def)
  also have "\<dots> = s # [s + 1 .. e]" using Suc.hyps(1)[OF n] n by simp
  also have "\<dots> = [s .. e]" using le by (simp add: upto_rec1)
  finally show ?case using Suc.hyps(2) by simp
qed

lemma visiblePages_upto:
  "visiblePages cp pages =
     (let start = max 1 (cp - 2); end = min pages (start + 4)
      in [(if end - start < 4 then max 1 (end - 4) else start) .. end])"
proof -
  define s where "s = max 1 (cp - 2)"
  define e where "e = min pages (s + 4)"
  define s' where "s' = (if e - s < 4 then max 1 (e - 4) else s)"
  have "visiblePages cp pages = map (\<lambda>i. s' + int i) [0 ..< nat (e - s' + 1)]"
    unfolding visiblePages_def Let_def s_def e_def s'_def by simp
  also have "\<dots> = [s' .. e]" by (rule map_upt_upto)
  finally show ?thesis unfolding Let_def s_def e_def s'_def .
qed

text \<open>
  C6. For every sequence of filtered rows, with ten rows on a page: the number of pages
  is the length divided by the page size, rounded up; page \<open>p\<close> (counted from one) holds
  the rows from position \<open>(p - 1) * 10\<close> up to, not including, position \<open>p * 10\<close>; a page
  beyond the last one is empty; and the pages from the first to the last one, one after
  the other, give the sequence back.
\<close>

theorem pagination_reconstructs:
  "totalPages filtered = \<lceil>real (length filtered) / real_of_int rowsPerPage\<rceil> \<and>
   (\<forall>p\<ge>1. paginatedRows filtered p =
            take (nat rowsPerPage) (drop (nat ((p - 1) * rowsPerPage)) filtered)) \<and>
   (\<forall>p>totalPages filtered. paginatedRows filtered p = []) \<and>
   concat (map (paginatedRows filtered) [1 .. totalPages filtered]) = filtered"
  using totalPages_ceiling [of filtered] pages_concat [of filtered]
  by (simp add: paginatedRows_pos page_beyond rowsPerPage_def)

theorem pagination_reconstructs_witness:
  "totalPages [1, 2, 3, 4, 5, 6, 7, 8, 9, 10, 11, 12 :: nat] = 2 \<and>
   paginatedRows [1, 2, 3, 4, 5, 6, 7, 8, 9, 10, 11, 12 :: nat] 2 = [11, 12] \<and>
   paginatedRows [1, 2, 3, 4, 5, 6, 7, 8, 9, 10, 11, 12 :: nat] 3 = [] \<and>
   concat (map (paginatedRows [1, 2, 3, 4, 5, 6, 7, 8, 9, 10, 11, 12 :: nat]) [1 .. 2]) =
     [1, 2, 3, 4, 5, 6, 7, 8, 9, 10, 11, 12]"
proof -
  let ?xs = "[1, 2, 3, 4, 5, 6, 7, 8, 9, 10, 11, 12 :: nat]"
  note t = pagination_reconstructs [of ?xs]
  have tp: "totalPages ?xs = 2"
    by (simp add: totalPages_div)
  from t [THEN conjunct2, THEN conjunct1]
  have "paginatedRows ?xs 2 = take (nat rowsPerPage) (drop (nat ((2 - 1) * rowsPerPage)) ?xs)"
    by (simp del: One_nat_def)
  then have p2: "paginatedRows ?xs 2 = [11, 12]"
    by (simp add: rowsPerPage_def)
  from t [THEN conjunct2, THEN conjunct2, THEN conjunct1]
  have p3: "paginatedRows ?xs 3 = []"
    unfolding tp by simp
  from t [THEN conjunct2, THEN conjunct2, THEN conjunct2]
  have c: "concat (map (paginatedRows ?xs) [1 .. 2]) = ?xs"
    unfolding tp .
  from tp p2 p3 c show ?thesis by (simp del: One_nat_def)
qed

text \<open>
  C7. For every current page and every number of pages, the visible page numbers are the
  consecutive numbers from \<open>start\<close> to \<open>end\<close>, where \<open>end\<close> is the smaller of the number
  of pages and \<open>max 1 (page - 2) + 4\<close>, and \<open>start\<close> is \<open>max 1 (page - 2)\<close>, slid back to
  \<open>max 1 (end - 4)\<close> when fewer than five numbers would remain. There are at most five of
  them (exactly five when there are five pages or more), all between one and the number
  of pages.
\<close>

theorem visiblePages_window:
  "(let start = max 1 (cp - 2);
        end = min pages (start + 4);
        start = (if end - start < 4 then max 1 (end - 4) else start)
    in visiblePages cp pages = [start .. end]) \<and>
   length (visiblePages cp pages) \<le> 5 \<and>
   length (visiblePages cp pages) = nat (min 5 pages) \<and>
   (\<forall>n \<in> set (visiblePages cp pages). 1 \<le> n \<and> n \<le> pages)"
  unfolding visiblePages_upto Let_def by (auto simp: min_def max_def)

theorem visiblePages_window_witness:
  "visiblePages 9 10 = [6, 7, 8, 9, 10] \<and> length (visiblePages 9 10) = 5 \<and>
   set (visiblePages 9 10) = {6, 7, 8, 9, 10}"
  using visiblePages_window [of 9 10] by (simp add: upto.simps)

section \<open>Text filter: proofs\<close>

lemma str_includes_sublist: "str_includes s t \<longleftrightarrow> sublist t s"
  by (induction s) (auto simp: sublist_Cons_right)

lemma matchesText_iff:
  "matchesText B query r \<longleftrightarrow>
     (\<exists>c \<in> set r. sublist (toLowerCase B query) (toLowerCase B (String_cell B c)))"
  by (simp add: matchesText_def list_ex_iff str_includes_sublist)

lemma subseq_textFilter: "subseq (textFilter B query rows) rows"
  by (simp add: textFilter_def)

text \<open>
  C8. The text filter with the empty text returns all rows unchanged. With any text it
  returns a subsequence of its input, so never more rows. With a text that is not empty
  it keeps exactly the rows of which some cell, as a lower-case string, contains the
  lower-case text as a contiguous substring.
\<close>

theorem textFilter_monotonic:
  "textFilter B [] rows = rows \<and>
   subseq (textFilter B query rows) rows \<and>
   length (textFilter B query rows) \<le> length rows \<and>
   (query \<noteq> [] \<longrightarrow>
      textFilter B query rows =
        filter (\<lambda>r. \<exists>c \<in> set r. sublist (toLowerCase B query) (toLowerCase B (String_cell B c)))
          rows)"
proof -
  have "filter (matchesText B query) rows =
        filter (\<lambda>r. \<exists>c \<in> set r. sublist (toLowerCase B query) (toLowerCase B (String_cell B c)))
          rows"
    by (rule filter_cong) (simp_all add: matchesText_iff)
  then show ?thesis
    using subseq_textFilter [of B query rows]
    by (auto simp: textFilter_def dest: subseq_same_length intro: list_emb_length)
qed

theorem textFilter_monotonic_witness:
  "textFilter exampleRuntime []
     [[CStr ''2024-01-01'', CStr ''100'', CStr ''5''],
      [CStr ''2024-01-02'', CStr ''200'', CStr ''10'']] =
     [[CStr ''2024-01-01'', CStr ''100'', CStr ''5''],
      [CStr ''2024-01-02'', CStr ''200'', CStr ''10'']] \<and>
   textFilter exampleRuntime ''2024-01-02''
     [[CStr ''2024-01-01'', CStr ''100'', CStr ''5''],
      [CStr ''2024-01-02'', CStr ''200'', CStr ''10'']] =
     [[CStr ''2024-01-02'', CStr ''200'', CStr ''10'']] \<and>
   subseq [[CStr ''2024-01-02'', CStr ''200'', CStr ''10'']]
     [[CStr ''2024-01-01'', CStr ''100'', CStr ''5''],
      [CStr ''2024-01-02'', CStr ''200'', CStr ''10'']]"
proof -
  let ?rows = "[[CStr ''2024-01-01'', CStr ''100'', CStr ''5''],
                [CStr ''2024-01-02'', CStr ''200'', CStr ''10'']]"
  note t = textFilter_monotonic [of exampleRuntime ?rows "''2024-01-02''"]
  have "filter (\<lambda>r. \<exists>c \<in> set r. sublist (toLowerCase exampleRuntime ''2024-01-02'')
                                       (toLowerCase exampleRuntime (String_cell exampleRuntime c)))
          ?rows = [[CStr ''2024-01-02'', CStr ''200'', CStr ''10'']]"
    by code_simp
  with t [THEN conjunct2, THEN conjunct2, THEN conjunct2]
  have e: "textFilter exampleRuntime ''2024-01-02'' ?rows =
           [[CStr ''2024-01-02'', CStr ''200'', CStr ''10'']]"
    by simp
  from t have "textFilter exampleRuntime [] ?rows = ?rows"
    and "subseq (textFilter exampleRuntime ''2024-01-02'' ?rows) ?rows"
    by blast+
  then show ?thesis unfolding e by blast
qed

section \<open>Chart data: proofs\<close>

lemma columnsInclude_iff: "columnsInclude cols v \<longleftrightarrow> v \<in> JStr ` set cols"
  by (cases v) (auto simp: columnsInclude_def)

text \<open>
  C9. For every table and chart selection: when the selected x column is no column of
  the header the labels are the empty list, and when the selected y column is no column
  of the header the data of the dataset is the empty list; the projection is a total
  function, so neither case throws. The chart type has no effect on the projection.
\<close>

theorem chartData_missing_column:
  "(xColumn st \<notin> JStr ` set (columns st) \<longrightarrow> labels (chartData B st) = []) \<and>
   (yColumn st \<notin> JStr ` set (columns st) \<longrightarrow> datasetData (chartData B st) = []) \<and>
   chartData B (st\<lparr>chartType := t\<rparr>) = chartData B st"
  by (simp add: chartData_def columnsInclude_iff)

theorem chartData_missing_column_witness:
  "labels (chartData exampleRuntime (exPage\<lparr>xColumn := JStr ''Region'', yColumn := JStr ''Revenue''\<rparr>))
     = [] \<and>
   datasetData (chartData exampleRuntime
     (exPage\<lparr>xColumn := JStr ''Region'', yColumn := JStr ''Revenue''\<rparr>)) = [Fin 100] \<and>
   datasetData (chartData exampleRuntime
     (exPage\<lparr>xColumn := JStr ''Date'', yColumn := JStr ''Profit''\<rparr>)) = [] \<and>
   chartData exampleRuntime
     (exPage\<lparr>xColumn := JStr ''Region'', yColumn := JStr ''Revenue'', chartType := JStr ''pie''\<rparr>) =
   chartData exampleRuntime (exPage\<lparr>xColumn := JStr ''Region'', yColumn := JStr ''Revenue''\<rparr>)"
proof -
  let ?st = "exPage\<lparr>xColumn := JStr ''Region'', yColumn := JStr ''Revenue''\<rparr>"
  let ?st' = "exPage\<lparr>xColumn := JStr ''Date'', yColumn := JStr ''Profit''\<rparr>"
  have x: "xColumn ?st \<notin> JStr ` set (columns ?st)"
    by (auto simp: exPage_def)
  have y: "yColumn ?st' \<notin> JStr ` set (columns ?st')"
    by (auto simp: exPage_def)
  have d: "datasetData (chartData exampleRuntime ?st) = [Fin 100]" by code_simp
  from chartData_missing_column [of ?st exampleRuntime "JStr ''pie''"] x
  have l: "labels (chartData exampleRuntime ?st) = []"
    and c: "chartData exampleRuntime (?st\<lparr>chartType := JStr ''pie''\<rparr>) = chartData exampleRuntime ?st"
    by blast+
  from chartData_missing_column [of ?st' exampleRuntime "JStr ''pie''"] y
  have e: "datasetData (chartData exampleRuntime ?st') = []"
    by blast
  from l d e c show ?thesis by (intro conjI)
qed

section \<open>Date range filter: proofs\<close>

lemma js_cmp_NaN [simp]: "\<not> js_le NaN b" "\<not> js_ge NaN b" "\<not> js_le a NaN"
  by (cases b; cases a; simp add: js_ge_def)+

lemma dateInRange_invalid:
  "new_Date B (at_index r i) = NaN \<Longrightarrow> dr_start dr \<noteq> [] \<or> dr_end dr \<noteq> [] \<Longrightarrow>
   \<not> dateInRange B dr i r"
  by (auto simp: dateInRange_def Let_def)

text \<open>
  C1 (the code differs). Whenever a start or an end bound is set and the table has a date
  column, a row whose cell in that column does not parse as a date is removed by the date
  range filter: \<open>new Date\<close> does not throw on such a cell, it yields an invalid date, and
  every comparison with an invalid date is false.
\<close>

theorem unparsable_date_dropped:
  "new_Date B (at_index r (findIndex cols (isDateColumn B))) = NaN \<Longrightarrow>
   findIndex cols (isDateColumn B) \<noteq> - 1 \<Longrightarrow>
   dr_start dr \<noteq> [] \<or> dr_end dr \<noteq> [] \<Longrightarrow>
   r \<notin> set (dateFilter B dr cols rows)"
  by (auto simp: dateFilter_def Let_def dateInRange_invalid)

theorem unparsable_date_dropped_witness:
  "new_Date exampleRuntime
     (at_index [CStr ''not a date'', CStr ''100'']
        (findIndex [''Date'', ''Revenue''] (isDateColumn exampleRuntime))) = NaN \<and>
   findIndex [''Date'', ''Revenue''] (isDateColumn exampleRuntime) = 0 \<and>
   [CStr ''not a date'', CStr ''100''] \<notin> set
     (dateFilter exampleRuntime \<lparr>dr_start = ''2024-01-01'', dr_end = []\<rparr> [''Date'', ''Revenue'']
        [[CStr ''not a date'', CStr ''100''], [CStr ''2024-01-02'', CStr ''200'']]) \<and>
   filteredData exampleRuntime
     [[CStr ''Date'', CStr ''Revenue''], [CStr ''not a date'', CStr ''100''],
      [CStr ''2024-01-02'', CStr ''200'']]
     [] \<lparr>dr_start = ''2024-01-01'', dr_end = []\<rparr> [''Date'', ''Revenue''] None Asc
     [''Date'', ''Revenue''] = [[CStr ''2024-01-02'', CStr ''200'']]"
proof -
  have i: "findIndex [''Date'', ''Revenue''] (isDateColumn exampleRuntime) = 0"
    by code_simp
  have n: "new_Date exampleRuntime
     (at_index [CStr ''not a date'', CStr ''100'']
        (findIndex [''Date'', ''Revenue''] (isDateColumn exampleRuntime))) = NaN"
    by code_simp
  have f: "filteredData exampleRuntime
     [[CStr ''Date'', CStr ''Revenue''], [CStr ''not a date'', CStr ''100''],
      [CStr ''2024-01-02'', CStr ''200'']]
     [] \<lparr>dr_start = ''2024-01-01'', dr_end = []\<rparr> [''Date'', ''Revenue''] None Asc
     [''Date'', ''Revenue''] = [[CStr ''2024-01-02'', CStr ''200'']]"
    by code_simp
  have "[CStr ''not a date'', CStr ''100''] \<notin> set
     (dateFilter exampleRuntime \<lparr>dr_start = ''2024-01-01'', dr_end = []\<rparr> [''Date'', ''Revenue'']
        [[CStr ''not a date'', CStr ''100''], [CStr ''2024-01-02'', CStr ''200'']])"
    by (rule unparsable_date_dropped [OF n]) (unfold i, simp_all)
  with i n f show ?thesis by blast
qed

section \<open>Metrics: proofs\<close>

text \<open>
  C3 (amended). For every table without data rows the metrics effect computes nothing
  and leaves the page state, so also the metrics, as it was: all zero when they were all
  zero before, as in the initial state. Whenever the effect does store new metrics the
  table has a data row, so the mean of the growth column is never taken over zero rows.
\<close>

theorem metricsEffect_no_rows:
  "(slice_from (data st) 1 = [] \<longrightarrow>
      metricsEffect B st = st \<and>
      (metrics st = zeroMetrics \<longrightarrow> metrics (metricsEffect B st) = zeroMetrics)) \<and>
   (metricsEffect B st \<noteq> st \<longrightarrow>
      0 < length (slice_from (data st) 1) \<and>
      metrics (metricsEffect B st) = computeMetrics B (data st) (columns st))"
proof -
  have "slice_from (data st) 1 = [] \<longleftrightarrow> length (data st) \<le> 1"
    by (auto simp: slice_from_def slice_def Let_def)
  then show ?thesis by (auto simp: metricsEffect_def)
qed

theorem metricsEffect_no_rows_witness:
  "slice_from (data (initialPage\<lparr>data := [[CStr ''Revenue'']], columns := [''Revenue'']\<rparr>)) 1 = [] \<and>
   metrics (metricsEffect exampleRuntime
     (initialPage\<lparr>data := [[CStr ''Revenue'']], columns := [''Revenue'']\<rparr>)) = zeroMetrics \<and>
   metrics (metricsEffect exampleRuntime
     (initialPage\<lparr>data := [[CStr ''Revenue''], [CStr ''100''], [CStr ''200'']],
                  columns := [''Revenue'']\<rparr>)) =
     \<lparr>revenue = Fin 300, users = Fin 0, conversions = Fin 0, growth = Fin 0\<rparr>"
proof -
  let ?st = "initialPage\<lparr>data := [[CStr ''Revenue'']], columns := [''Revenue'']\<rparr>"
  let ?st' = "initialPage\<lparr>data := [[CStr ''Revenue''], [CStr ''100''], [CStr ''200'']],
                           columns := [''Revenue'']\<rparr>"
  have e: "slice_from (data ?st) 1 = []"
    by (simp add: slice_from_def slice_def)
  have z: "metrics ?st = zeroMetrics" by (simp add: initialPage_def)
  from metricsEffect_no_rows [of ?st exampleRuntime, THEN conjunct1] e
  have "metrics ?st = zeroMetrics \<longrightarrow> metrics (metricsEffect exampleRuntime ?st) = zeroMetrics"
    by blast
  with z have a: "metrics (metricsEffect exampleRuntime ?st) = zeroMetrics" by blast
  have c: "computeMetrics exampleRuntime [[CStr ''Revenue''], [CStr ''100''], [CStr ''200'']]
             [''Revenue''] =
           \<lparr>revenue = Fin 300, users = Fin 0, conversions = Fin 0, growth = Fin 0\<rparr>"
    by code_simp
  have "metrics (metricsEffect exampleRuntime ?st') \<noteq> metrics ?st'"
    by (simp add: metricsEffect_def c initialPage_def zeroMetrics_def)
  then have "metricsEffect exampleRuntime ?st' \<noteq> ?st'" by auto
  with metricsEffect_no_rows [of ?st' exampleRuntime, THEN conjunct2]
  have "metrics (metricsEffect exampleRuntime ?st') =
          computeMetrics exampleRuntime (data ?st') (columns ?st')"
    by blast
  with c have b: "metrics (metricsEffect exampleRuntime ?st') =
      \<lparr>revenue = Fin 300, users = Fin 0, conversions = Fin 0, growth = Fin 0\<rparr>"
    by simp
  from e a b show ?thesis by (intro conjI)
qed

theorem metrics_not_zeroed_counterexample:
  "metrics (metricsEffect exampleRuntime
     (initialPage\<lparr>data := [[CStr ''Date'', CStr ''Revenue'', CStr ''Users''],
                           [CStr ''2024-01-01'', CStr ''100'', CStr ''5''],
                           [CStr ''2024-01-02'', CStr ''200'', CStr ''10'']],
                  columns := [''Date'', ''Revenue'', ''Users'']\<rparr>)) =
     \<lparr>revenue = Fin 300, users = Fin 15, conversions = Fin 0, growth = Fin 0\<rparr> \<and>
   slice_from [[CStr ''Date'', CStr ''Revenue'', CStr ''Users'']] 1 = [] \<and>
   metrics (metricsEffect exampleRuntime
     (initialPage\<lparr>data := [[CStr ''Date'', CStr ''Revenue'', CStr ''Users'']],
                  columns := [''Date'', ''Revenue'', ''Users''],
                  metrics := \<lparr>revenue = Fin 300, users = Fin 15, conversions = Fin 0,
                              growth = Fin 0\<rparr>\<rparr>)) \<noteq> zeroMetrics"
proof -
  have "computeMetrics exampleRuntime
          [[CStr ''Date'', CStr ''Revenue'', CStr ''Users''],
           [CStr ''2024-01-01'', CStr ''100'', CStr ''5''],
           [CStr ''2024-01-02'', CStr ''200'', CStr ''10'']]
          [''Date'', ''Revenue'', ''Users''] =
        \<lparr>revenue = Fin 300, users = Fin 15, conversions = Fin 0, growth = Fin 0\<rparr>"
    by code_simp
  then show ?thesis
    by (simp add: slice_from_def slice_def metricsEffect_def zeroMetrics_def)
qed

section \<open>Natural language chart generation: proofs\<close>

lemma getProp_obj_or_undefined:
  "getProp result name = Inr v \<Longrightarrow> result \<noteq> JNull"
  by (cases result) simp_all

lemma interpretInstruction_accept:
  assumes "instruction st \<noteq> []" "columns st \<noteq> []" "ok status"
    and "getProp result ''chartType'' = Inr (Some c)"
    and "getProp result ''xColumn'' = Inr (Some x)"
    and "getProp result ''yColumn'' = Inr (Some y)"
    and "truthy (Some c)" "truthy (Some x)" "truthy (Some y)"
  shows "interpretInstruction (Response status (Some result)) st =
           (st\<lparr>chartType := c, xColumn := x, yColumn := y, isLoading := False\<rparr>, None)"
  using assms by (simp add: interpretInstruction_def)

lemma interpretInstruction_selection:
  "interpretInstruction res st = (st', a) \<Longrightarrow>
     (a = None \<and>
      (\<exists>status result c x y. res = Response status (Some result) \<and> ok status \<and>
         instruction st \<noteq> [] \<and> columns st \<noteq> [] \<and>
         getProp result ''chartType'' = Inr (Some c) \<and> truthy (Some c) \<and>
         getProp result ''xColumn'' = Inr (Some x) \<and> truthy (Some x) \<and>
         getProp result ''yColumn'' = Inr (Some y) \<and> truthy (Some y) \<and>
         st' = st\<lparr>chartType := c, xColumn := x, yColumn := y, isLoading := False\<rparr>)) \<or>
     (a \<noteq> None \<and> st' = st\<lparr>isLoading := False\<rparr>)"
  unfolding interpretInstruction_def
  by (auto split: if_splits fetched.splits option.splits sum.splits prod.splits)

lemma interpretInstruction_reject:
  assumes "\<not> truthy c \<or> \<not> truthy x \<or> \<not> truthy y"
    and "getProp result ''chartType'' = Inr c"
    and "getProp result ''xColumn'' = Inr x"
    and "getProp result ''yColumn'' = Inr y"
  shows "snd (interpretInstruction (Response status (Some result)) st) \<noteq> None \<and>
         fst (interpretInstruction (Response status (Some result)) st) = st\<lparr>isLoading := False\<rparr>"
  using assms
  by (auto simp: interpretInstruction_def split: option.splits)

lemma getProp_total: "result \<noteq> JNull \<Longrightarrow> \<exists>v. getProp result name = Inr v"
  by (cases result) simp_all

lemma POST_passes_parsed:
  assumes "key \<noteq> []" "map_of kvs ''columns'' = Some (JArr cols)"
    and "optProp (optFirst (optProp (Some d) ''choices'')) ''message'' = Some message"
    and "optProp (Some message) ''content'' = Some (JStr content)"
    and "jsonParse B (trim B content) = Some parsed"
  shows "POST B (Some (JObj kvs)) (Some key) (Upstream True body (Some d)) = (200, parsed)"
  using assms by (simp add: POST_def)

text \<open>
  C2 (amended). The chart type of a resolved selection is not checked against the four
  known values. The route returns whatever JSON value the answer of the completion
  service parses to. With an instruction and a header present, the page accepts a
  response exactly when it is ok and its \<open>chartType\<close>, \<open>xColumn\<close> and \<open>yColumn\<close> are all
  truthy, and then stores the three values as received. Every other response, so one
  that lacks one of the three fields or has a falsy one, is reported as a failure, and no
  field of the selection changes. A chart type other than \<open>line\<close>, \<open>pie\<close> and \<open>donut\<close>
  is drawn as a bar chart.
\<close>

theorem selection_applied_unvalidated:
  "(key \<noteq> [] \<and> map_of kvs ''columns'' = Some (JArr cols) \<and>
    optProp (optFirst (optProp (Some d) ''choices'')) ''message'' = Some message \<and>
    optProp (Some message) ''content'' = Some (JStr content) \<and>
    jsonParse B (trim B content) = Some parsed \<longrightarrow>
      routeResponse (POST B (Some (JObj kvs)) (Some key) (Upstream True body (Some d))) =
        Response 200 (Some parsed)) \<and>
   (instruction st \<noteq> [] \<and> columns st \<noteq> [] \<and> ok status \<and>
    getProp result ''chartType'' = Inr (Some c) \<and> truthy (Some c) \<and>
    getProp result ''xColumn'' = Inr (Some x) \<and> truthy (Some x) \<and>
    getProp result ''yColumn'' = Inr (Some y) \<and> truthy (Some y) \<longrightarrow>
      interpretInstruction (Response status (Some result)) st =
        (st\<lparr>chartType := c, xColumn := x, yColumn := y, isLoading := False\<rparr>, None)) \<and>
   (getProp result ''chartType'' = Inr None \<or> getProp result ''xColumn'' = Inr None \<or>
    getProp result ''yColumn'' = Inr None \<longrightarrow>
      snd (interpretInstruction (Response status (Some result)) st) \<noteq> None \<and>
      fst (interpretInstruction (Response status (Some result)) st) = st\<lparr>isLoading := False\<rparr>) \<and>
   (chartType st \<notin> {JStr ''line'', JStr ''pie'', JStr ''donut''} \<longrightarrow>
      fst (renderChart B st) = Bar) \<and>
   (getProp result ''chartType'' = Inr fc \<and> getProp result ''xColumn'' = Inr fx \<and>
    getProp result ''yColumn'' = Inr fy \<and> (\<not> truthy fc \<or> \<not> truthy fx \<or> \<not> truthy fy) \<longrightarrow>
      snd (interpretInstruction (Response status (Some result)) st) \<noteq> None \<and>
      fst (interpretInstruction (Response status (Some result)) st) = st\<lparr>isLoading := False\<rparr>) \<and>
   (snd (interpretInstruction res st) = None \<longrightarrow>
      (\<exists>status' result' c' x' y'.
         res = Response status' (Some result') \<and> ok status' \<and>
         instruction st \<noteq> [] \<and> columns st \<noteq> [] \<and>
         getProp result' ''chartType'' = Inr (Some c') \<and> truthy (Some c') \<and>
         getProp result' ''xColumn'' = Inr (Some x') \<and> truthy (Some x') \<and>
         getProp result' ''yColumn'' = Inr (Some y') \<and> truthy (Some y') \<and>
         fst (interpretInstruction res st) =
           st\<lparr>chartType := c', xColumn := x', yColumn := y', isLoading := False\<rparr>)) \<and>
   (snd (interpretInstruction res st) \<noteq> None \<longrightarrow>
      fst (interpretInstruction res st) = st\<lparr>isLoading := False\<rparr>)"
proof -
  have p: "key \<noteq> [] \<and> map_of kvs ''columns'' = Some (JArr cols) \<and>
    optProp (optFirst (optProp (Some d) ''choices'')) ''message'' = Some message \<and>
    optProp (Some message) ''content'' = Some (JStr content) \<and>
    jsonParse B (trim B content) = Some parsed \<longrightarrow>
      routeResponse (POST B (Some (JObj kvs)) (Some key) (Upstream True body (Some d))) =
        Response 200 (Some parsed)"
    by (simp add: POST_passes_parsed routeResponse_def)
  have acc: "instruction st \<noteq> [] \<and> columns st \<noteq> [] \<and> ok status \<and>
    getProp result ''chartType'' = Inr (Some c) \<and> truthy (Some c) \<and>
    getProp result ''xColumn'' = Inr (Some x) \<and> truthy (Some x) \<and>
    getProp result ''yColumn'' = Inr (Some y) \<and> truthy (Some y) \<longrightarrow>
      interpretInstruction (Response status (Some result)) st =
        (st\<lparr>chartType := c, xColumn := x, yColumn := y, isLoading := False\<rparr>, None)"
    by (simp add: interpretInstruction_accept)
  have falsy: "getProp result ''chartType'' = Inr fc \<and> getProp result ''xColumn'' = Inr fx \<and>
    getProp result ''yColumn'' = Inr fy \<and> (\<not> truthy fc \<or> \<not> truthy fx \<or> \<not> truthy fy) \<longrightarrow>
      snd (interpretInstruction (Response status (Some result)) st) \<noteq> None \<and>
      fst (interpretInstruction (Response status (Some result)) st) = st\<lparr>isLoading := False\<rparr>"
    for fc fx fy
    using interpretInstruction_reject [of fc fx fy result status st] by blast
  have miss: "getProp result ''chartType'' = Inr None \<or> getProp result ''xColumn'' = Inr None \<or>
    getProp result ''yColumn'' = Inr None \<longrightarrow>
      snd (interpretInstruction (Response status (Some result)) st) \<noteq> None \<and>
      fst (interpretInstruction (Response status (Some result)) st) = st\<lparr>isLoading := False\<rparr>"
  proof
    assume m: "getProp result ''chartType'' = Inr None \<or> getProp result ''xColumn'' = Inr None \<or>
      getProp result ''yColumn'' = Inr None"
    then have "result \<noteq> JNull" by (auto dest: getProp_obj_or_undefined)
    then obtain gc gx gy where g: "getProp result ''chartType'' = Inr gc"
      "getProp result ''xColumn'' = Inr gx" "getProp result ''yColumn'' = Inr gy"
      using getProp_total by blast
    with m have "\<not> truthy gc \<or> \<not> truthy gx \<or> \<not> truthy gy" by auto
    with g falsy [of gc gx gy]
    show "snd (interpretInstruction (Response status (Some result)) st) \<noteq> None \<and>
      fst (interpretInstruction (Response status (Some result)) st) = st\<lparr>isLoading := False\<rparr>"
      by blast
  qed
  have bar: "chartType st \<notin> {JStr ''line'', JStr ''pie'', JStr ''donut''} \<longrightarrow>
      fst (renderChart B st) = Bar"
    by (simp add: renderChart_def)
  obtain st' a where e: "interpretInstruction res st = (st', a)"
    by (cases "interpretInstruction res st")
  note sel = interpretInstruction_selection [OF e]
  have only: "snd (interpretInstruction res st) = None \<longrightarrow>
      (\<exists>status' result' c' x' y'.
         res = Response status' (Some result') \<and> ok status' \<and>
         instruction st \<noteq> [] \<and> columns st \<noteq> [] \<and>
         getProp result' ''chartType'' = Inr (Some c') \<and> truthy (Some c') \<and>
         getProp result' ''xColumn'' = Inr (Some x') \<and> truthy (Some x') \<and>
         getProp result' ''yColumn'' = Inr (Some y') \<and> truthy (Some y') \<and>
         fst (interpretInstruction res st) =
           st\<lparr>chartType := c', xColumn := x', yColumn := y', isLoading := False\<rparr>)"
  proof
    assume "snd (interpretInstruction res st) = None"
    with e have "a = None" by simp
    with sel e show "\<exists>status' result' c' x' y'.
         res = Response status' (Some result') \<and> ok status' \<and>
         instruction st \<noteq> [] \<and> columns st \<noteq> [] \<and>
         getProp result' ''chartType'' = Inr (Some c') \<and> truthy (Some c') \<and>
         getProp result' ''xColumn'' = Inr (Some x') \<and> truthy (Some x') \<and>
         getProp result' ''yColumn'' = Inr (Some y') \<and> truthy (Some y') \<and>
         fst (interpretInstruction res st) =
           st\<lparr>chartType := c', xColumn := x', yColumn := y', isLoading := False\<rparr>"
      by (simp only: fst_conv) blast
  qed
  have rej: "snd (interpretInstruction res st) \<noteq> None \<longrightarrow>
      fst (interpretInstruction res st) = st\<lparr>isLoading := False\<rparr>"
  proof
    assume "snd (interpretInstruction res st) \<noteq> None"
    with e have "a \<noteq> None" by simp
    with sel have "st' = st\<lparr>isLoading := False\<rparr>" by blast
    with e show "fst (interpretInstruction res st) = st\<lparr>isLoading := False\<rparr>" by simp
  qed
  from p acc miss bar falsy [of fc fx fy] only rej show ?thesis by (intro conjI)
qed

theorem selection_applied_unvalidated_witness:
  "routeResponse (POST exampleRuntime (Some exRequest) (Some ''secret'')
      (Upstream True [] (Some exCompletion))) = Response 200 (Some exResponseJson) \<and>
   interpretInstruction
     (Response 200 (Some (JObj [(''chartType'', JStr ''line''), (''xColumn'', JStr ''Date''),
                                (''yColumn'', JStr ''Revenue'')]))) exPage =
     (exPage\<lparr>chartType := JStr ''line'', xColumn := JStr ''Date'', yColumn := JStr ''Revenue'',
             isLoading := False\<rparr>, None) \<and>
   snd (interpretInstruction (Response 200 (Some (JObj [(''error'', JStr ''no answer'')]))) exPage)
     \<noteq> None \<and>
   fst (interpretInstruction (Response 200 (Some (JObj [(''error'', JStr ''no answer'')]))) exPage)
     = exPage\<lparr>isLoading := False\<rparr> \<and>
   fst (renderChart exampleRuntime (exPage\<lparr>chartType := JStr ''scatter''\<rparr>)) = Bar \<and>
   snd (interpretInstruction
     (Response 200 (Some (JObj [(''chartType'', JStr ''line''), (''xColumn'', JNull),
                                (''yColumn'', JStr ''Revenue'')]))) exPage) \<noteq> None \<and>
   fst (interpretInstruction
     (Response 200 (Some (JObj [(''chartType'', JStr ''line''), (''xColumn'', JNull),
                                (''yColumn'', JStr ''Revenue'')]))) exPage) =
     exPage\<lparr>isLoading := False\<rparr> \<and>
   fst (interpretInstruction (Response 500 (Some (JObj [(''error'', JStr ''no answer'')]))) exPage)
     = exPage\<lparr>isLoading := False\<rparr> \<and>
   (\<exists>status' result' c' x' y'.
      Response 200 (Some (JObj [(''chartType'', JStr ''line''), (''xColumn'', JStr ''Date''),
                                (''yColumn'', JStr ''Revenue'')])) = Response status' (Some result') \<and>
      ok status' \<and> instruction exPage \<noteq> [] \<and> columns exPage \<noteq> [] \<and>
      getProp result' ''chartType'' = Inr (Some c') \<and> truthy (Some c') \<and>
      getProp result' ''xColumn'' = Inr (Some x') \<and> truthy (Some x') \<and>
      getProp result' ''yColumn'' = Inr (Some y') \<and> truthy (Some y') \<and>
      fst (interpretInstruction
        (Response 200 (Some (JObj [(''chartType'', JStr ''line''), (''xColumn'', JStr ''Date''),
                                   (''yColumn'', JStr ''Revenue'')]))) exPage) =
        exPage\<lparr>chartType := c', xColumn := x', yColumn := y', isLoading := False\<rparr>)"
proof -
  let ?kvs = "[(''instruction'', JStr ''revenue by date''),
               (''columns'', JArr [JStr ''Date'', JStr ''Revenue''])]"
  let ?msg = "JObj [(''role'', JStr ''assistant''), (''content'', JStr exResponseText)]"
  let ?line = "JObj [(''chartType'', JStr ''line''), (''xColumn'', JStr ''Date''),
                     (''yColumn'', JStr ''Revenue'')]"
  let ?err = "JObj [(''error'', JStr ''no answer'')]"
  let ?null = "JObj [(''chartType'', JStr ''line''), (''xColumn'', JNull),
                     (''yColumn'', JStr ''Revenue'')]"
  have t: "exTrim exResponseText = exResponseText"
    by (simp add: exTrim_def exResponseText_def)
  note inst = selection_applied_unvalidated
    [where key = "''secret''" and kvs = ?kvs and cols = "[JStr ''Date'', JStr ''Revenue'']"
       and d = exCompletion and message = ?msg and content = exResponseText
       and B = exampleRuntime and parsed = exResponseJson and body = "[]" and st = exPage
       and status = 200 and result = ?line and c = "JStr ''line''" and x = "JStr ''Date''"
       and y = "JStr ''Revenue''"]
  have a: "routeResponse (POST exampleRuntime (Some exRequest) (Some ''secret'')
      (Upstream True [] (Some exCompletion))) = Response 200 (Some exResponseJson)"
    using inst [THEN conjunct1]
    by (simp add: exRequest_def exCompletion_def exampleRuntime_def exJsonParse_def t)
  have b: "interpretInstruction (Response 200 (Some ?line)) exPage =
     (exPage\<lparr>chartType := JStr ''line'', xColumn := JStr ''Date'', yColumn := JStr ''Revenue'',
             isLoading := False\<rparr>, None)"
    using inst [THEN conjunct2, THEN conjunct1]
    by (simp add: exPage_def ok_def)
  have c: "snd (interpretInstruction (Response 200 (Some ?err)) exPage) \<noteq> None \<and>
     fst (interpretInstruction (Response 200 (Some ?err)) exPage) = exPage\<lparr>isLoading := False\<rparr>"
    using selection_applied_unvalidated
      [where st = exPage and status = 200 and result = ?err,
        THEN conjunct2, THEN conjunct2, THEN conjunct1]
    by simp
  have d: "fst (renderChart exampleRuntime (exPage\<lparr>chartType := JStr ''scatter''\<rparr>)) = Bar"
    using selection_applied_unvalidated
      [where B = exampleRuntime and st = "exPage\<lparr>chartType := JStr ''scatter''\<rparr>",
        THEN conjunct2, THEN conjunct2, THEN conjunct2, THEN conjunct1]
    by simp
  have e: "snd (interpretInstruction (Response 200 (Some ?null)) exPage) \<noteq> None \<and>
     fst (interpretInstruction (Response 200 (Some ?null)) exPage) = exPage\<lparr>isLoading := False\<rparr>"
    using selection_applied_unvalidated
      [where st = exPage and status = 200 and result = ?null and fc = "Some (JStr ''line'')"
         and fx = "Some JNull" and fy = "Some (JStr ''Revenue'')",
        THEN conjunct2, THEN conjunct2, THEN conjunct2, THEN conjunct2, THEN conjunct1]
    by simp
  have "snd (interpretInstruction (Response 500 (Some ?err)) exPage) \<noteq> None"
    by (simp add: interpretInstruction_def exPage_def ok_def)
  with selection_applied_unvalidated
      [where st = exPage and res = "Response 500 (Some ?err)",
        THEN conjunct2, THEN conjunct2, THEN conjunct2, THEN conjunct2, THEN conjunct2,
        THEN conjunct2]
  have f: "fst (interpretInstruction (Response 500 (Some ?err)) exPage) = exPage\<lparr>isLoading := False\<rparr>"
    by blast
  from b have "snd (interpretInstruction (Response 200 (Some ?line)) exPage) = None"
    by simp
  with selection_applied_unvalidated
      [where st = exPage and res = "Response 200 (Some ?line)",
        THEN conjunct2, THEN conjunct2, THEN conjunct2, THEN conjunct2, THEN conjunct2,
        THEN conjunct1]
  have g: "\<exists>status' result' c' x' y'.
      Response 200 (Some ?line) = Response status' (Some result') \<and>
      ok status' \<and> instruction exPage \<noteq> [] \<and> columns exPage \<noteq> [] \<and>
      getProp result' ''chartType'' = Inr (Some c') \<and> truthy (Some c') \<and>
      getProp result' ''xColumn'' = Inr (Some x') \<and> truthy (Some x') \<and>
      getProp result' ''yColumn'' = Inr (Some y') \<and> truthy (Some y') \<and>
      fst (interpretInstruction (Response 200 (Some ?line)) exPage) =
        exPage\<lparr>chartType := c', xColumn := x', yColumn := y', isLoading := False\<rparr>"
    by blast
  from a b c [THEN conjunct1] c [THEN conjunct2] d e [THEN conjunct1] e [THEN conjunct2] f g
  show ?thesis by (intro conjI)
qed

theorem unknown_chartType_accepted_counterexample:
  "interpretInstruction
     (routeResponse (POST exampleRuntime (Some exRequest) (Some ''secret'')
        (Upstream True [] (Some exCompletion)))) exPage =
     (exPage\<lparr>chartType := JStr ''scatter'', xColumn := JStr ''Date'',
             yColumn := JStr ''Revenue'', isLoading := False\<rparr>, None) \<and>
   JStr ''scatter'' \<notin> {JStr ''bar'', JStr ''line'', JStr ''pie'', JStr ''donut''}"
proof -
  have t: "exTrim exResponseText = exResponseText"
    by (simp add: exTrim_def exResponseText_def)
  have "POST exampleRuntime (Some exRequest) (Some ''secret'')
          (Upstream True [] (Some exCompletion)) = (200, exResponseJson)"
    by (simp add: POST_def exRequest_def exCompletion_def exampleRuntime_def exJsonParse_def t)
  then show ?thesis
    by (simp add: routeResponse_def interpretInstruction_def exResponseJson_def exPage_def ok_def)
qed

text \<open>
  C10. The page accepts a response only when its \<open>chartType\<close>, \<open>xColumn\<close> and \<open>yColumn\<close>
  are all truthy. A response in which one of the three is present but the empty string
  is therefore reported as a failure, and the chart type, the x column and the y column
  of the page stay as they were.
\<close>

theorem empty_string_field_rejected:
  "(getProp result ''chartType'' = Inr (Some (JStr [])) \<or>
    getProp result ''xColumn'' = Inr (Some (JStr [])) \<or>
    getProp result ''yColumn'' = Inr (Some (JStr [])) \<longrightarrow>
      snd (interpretInstruction (Response status (Some result)) st) \<noteq> None \<and>
      chartType (fst (interpretInstruction (Response status (Some result)) st)) = chartType st \<and>
      xColumn (fst (interpretInstruction (Response status (Some result)) st)) = xColumn st \<and>
      yColumn (fst (interpretInstruction (Response status (Some result)) st)) = yColumn st) \<and>
   (snd (interpretInstruction res st) = None \<longrightarrow>
      (\<exists>status result c x y.
         res = Response status (Some result) \<and> ok status \<and>
         getProp result ''chartType'' = Inr (Some c) \<and> truthy (Some c) \<and>
         getProp result ''xColumn'' = Inr (Some x) \<and> truthy (Some x) \<and>
         getProp result ''yColumn'' = Inr (Some y) \<and> truthy (Some y)))"
proof (intro conjI impI)
  assume m: "getProp result ''chartType'' = Inr (Some (JStr [])) \<or>
    getProp result ''xColumn'' = Inr (Some (JStr [])) \<or>
    getProp result ''yColumn'' = Inr (Some (JStr []))"
  then have "result \<noteq> JNull" by (auto dest: getProp_obj_or_undefined)
  then obtain c x y where g: "getProp result ''chartType'' = Inr c"
    "getProp result ''xColumn'' = Inr x" "getProp result ''yColumn'' = Inr y"
    using getProp_total by blast
  with m have "\<not> truthy c \<or> \<not> truthy x \<or> \<not> truthy y" by auto
  from interpretInstruction_reject [OF this g, of status st]
  show "snd (interpretInstruction (Response status (Some result)) st) \<noteq> None"
    and "chartType (fst (interpretInstruction (Response status (Some result)) st)) = chartType st"
    and "xColumn (fst (interpretInstruction (Response status (Some result)) st)) = xColumn st"
    and "yColumn (fst (interpretInstruction (Response status (Some result)) st)) = yColumn st"
    by simp_all
next
  assume n: "snd (interpretInstruction res st) = None"
  obtain st' a where e: "interpretInstruction res st = (st', a)" by (cases "interpretInstruction res st")
  with n have "a = None" by simp
  with interpretInstruction_selection [OF e]
  show "\<exists>status result c x y.
         res = Response status (Some result) \<and> ok status \<and>
         getProp result ''chartType'' = Inr (Some c) \<and> truthy (Some c) \<and>
         getProp result ''xColumn'' = Inr (Some x) \<and> truthy (Some x) \<and>
         getProp result ''yColumn'' = Inr (Some y) \<and> truthy (Some y)"
    by blast
qed

theorem empty_string_field_rejected_witness:
  "snd (interpretInstruction
          (Response 200 (Some (JObj [(''chartType'', JStr ''line''), (''xColumn'', JStr []),
                                     (''yColumn'', JStr ''Revenue'')]))) exPage) \<noteq> None \<and>
   chartType (fst (interpretInstruction
          (Response 200 (Some (JObj [(''chartType'', JStr ''line''), (''xColumn'', JStr []),
                                     (''yColumn'', JStr ''Revenue'')]))) exPage)) = JStr ''bar'' \<and>
   xColumn (fst (interpretInstruction
          (Response 200 (Some (JObj [(''chartType'', JStr ''line''), (''xColumn'', JStr []),
                                     (''yColumn'', JStr ''Revenue'')]))) exPage)) = JStr [] \<and>
   yColumn (fst (interpretInstruction
          (Response 200 (Some (JObj [(''chartType'', JStr ''line''), (''xColumn'', JStr []),
                                     (''yColumn'', JStr ''Revenue'')]))) exPage)) = JStr [] \<and>
   (\<exists>status result c x y.
      Response 200 (Some (JObj [(''chartType'', JStr ''line''), (''xColumn'', JStr ''Date''),
                                (''yColumn'', JStr ''Revenue'')])) = Response status (Some result) \<and>
      ok status \<and>
      getProp result ''chartType'' = Inr (Some c) \<and> truthy (Some c) \<and>
      getProp result ''xColumn'' = Inr (Some x) \<and> truthy (Some x) \<and>
      getProp result ''yColumn'' = Inr (Some y) \<and> truthy (Some y))"
proof -
  let ?r = "JObj [(''chartType'', JStr ''line''), (''xColumn'', JStr []),
                  (''yColumn'', JStr ''Revenue'')]"
  let ?line = "JObj [(''chartType'', JStr ''line''), (''xColumn'', JStr ''Date''),
                     (''yColumn'', JStr ''Revenue'')]"
  have s: "chartType exPage = JStr ''bar''" "xColumn exPage = JStr []" "yColumn exPage = JStr []"
    by (simp_all add: exPage_def initialPage_def)
  from empty_string_field_rejected [of ?r 200 exPage, THEN conjunct1] s
  have a: "snd (interpretInstruction (Response 200 (Some ?r)) exPage) \<noteq> None \<and>
     chartType (fst (interpretInstruction (Response 200 (Some ?r)) exPage)) = JStr ''bar'' \<and>
     xColumn (fst (interpretInstruction (Response 200 (Some ?r)) exPage)) = JStr [] \<and>
     yColumn (fst (interpretInstruction (Response 200 (Some ?r)) exPage)) = JStr []"
    by simp
  have "snd (interpretInstruction (Response 200 (Some ?line)) exPage) = None"
    by (simp add: interpretInstruction_def exPage_def ok_def)
  with empty_string_field_rejected
    [where res = "Response 200 (Some ?line)" and st = exPage, THEN conjunct2]
  have b: "\<exists>status result c x y.
      Response 200 (Some ?line) = Response status (Some result) \<and> ok status \<and>
      getProp result ''chartType'' = Inr (Some c) \<and> truthy (Some c) \<and>
      getProp result ''xColumn'' = Inr (Some x) \<and> truthy (Some x) \<and>
      getProp result ''yColumn'' = Inr (Some y) \<and> truthy (Some y)"
    by blast
  from a b show ?thesis by blast
qed

section \<open>Sorting: proofs\<close>

text \<open>The stable insertion sort, for an arbitrary comparator.\<close>

lemma mset_insertBy: "mset (insertBy cmp x ys) = add_mset x (mset ys)"
  by (induction ys) simp_all

lemma mset_stableSort: "mset (stableSort cmp xs) = mset xs"
  by (induction xs) (simp_all add: stableSort_def mset_insertBy)

lemma set_stableSort: "set (stableSort cmp xs) = set xs"
  by (metis mset_stableSort set_mset_mset)

lemma stableSort_Cons: "stableSort cmp (x # xs) = insertBy cmp x (stableSort cmp xs)"
  by (simp add: stableSort_def)

lemma stableSort_in_order:
  "successively (\<lambda>a b. \<not> js_less (Fin 0) (cmp a b)) xs \<Longrightarrow> stableSort cmp xs = xs"
proof (induction xs)
  case Nil
  show ?case by (simp add: stableSort_def)
next
  case (Cons x xs)
  then have "stableSort cmp xs = xs" by (cases xs) simp_all
  with Cons.prems show ?case by (cases xs) (simp_all add: stableSort_Cons)
qed

lemma filter_insertBy:
  assumes "\<And>y. y \<in> set ys \<Longrightarrow> P x \<Longrightarrow> P y \<Longrightarrow> \<not> js_less (Fin 0) (cmp x y)"
  shows "filter P (insertBy cmp x ys) = (if P x then x # filter P ys else filter P ys)"
  using assms by (induction ys) auto

lemma filter_stableSort:
  assumes "\<And>x y. x \<in> set xs \<Longrightarrow> y \<in> set xs \<Longrightarrow> P x \<Longrightarrow> P y \<Longrightarrow> \<not> js_less (Fin 0) (cmp x y)"
  shows "filter P (stableSort cmp xs) = filter P xs"
  using assms
proof (induction xs)
  case Nil
  show ?case by (simp add: stableSort_def)
next
  case (Cons x xs)
  have "filter P (insertBy cmp x (stableSort cmp xs)) =
        (if P x then x # filter P (stableSort cmp xs) else filter P (stableSort cmp xs))"
    by (rule filter_insertBy) (simp add: set_stableSort Cons.prems)
  moreover have "filter P (stableSort cmp xs) = filter P xs"
    by (rule Cons.IH) (simp add: Cons.prems)
  ultimately show ?case by (simp add: stableSort_Cons)
qed

lemma sorted_wrt_insertBy:
  assumes tot: "\<And>y. y \<in> set ys \<Longrightarrow> js_less (Fin 0) (cmp x y) \<Longrightarrow> \<not> js_less (Fin 0) (cmp y x)"
    and trans: "\<And>y z. y \<in> set ys \<Longrightarrow> z \<in> set ys \<Longrightarrow> \<not> js_less (Fin 0) (cmp x y) \<Longrightarrow>
       \<not> js_less (Fin 0) (cmp y z) \<Longrightarrow> \<not> js_less (Fin 0) (cmp x z)"
    and "sorted_wrt (\<lambda>a b. \<not> js_less (Fin 0) (cmp a b)) ys"
  shows "sorted_wrt (\<lambda>a b. \<not> js_less (Fin 0) (cmp a b)) (insertBy cmp x ys)"
  using assms
proof (induction ys)
  case Nil
  show ?case by simp
next
  case (Cons y ys)
  show ?case
  proof (cases "js_less (Fin 0) (cmp x y)")
    case True
    have "sorted_wrt (\<lambda>a b. \<not> js_less (Fin 0) (cmp a b)) (insertBy cmp x ys)"
      using Cons.prems by (intro Cons.IH) auto
    moreover have "\<not> js_less (Fin 0) (cmp y x)" using True Cons.prems(1) by simp
    ultimately show ?thesis
      using True Cons.prems(3)
      by (auto simp: set_mset_mset [symmetric] mset_insertBy simp del: set_mset_mset)
  next
    case False
    with Cons.prems show ?thesis by auto
  qed
qed

lemma sorted_wrt_stableSort:
  assumes tot: "\<And>x y. x \<in> set xs \<Longrightarrow> y \<in> set xs \<Longrightarrow> js_less (Fin 0) (cmp x y) \<Longrightarrow>
       \<not> js_less (Fin 0) (cmp y x)"
    and trans: "\<And>x y z. x \<in> set xs \<Longrightarrow> y \<in> set xs \<Longrightarrow> z \<in> set xs \<Longrightarrow>
       \<not> js_less (Fin 0) (cmp x y) \<Longrightarrow> \<not> js_less (Fin 0) (cmp y z) \<Longrightarrow>
       \<not> js_less (Fin 0) (cmp x z)"
  shows "sorted_wrt (\<lambda>a b. \<not> js_less (Fin 0) (cmp a b)) (stableSort cmp xs)"
  using assms
proof (induction xs)
  case Nil
  show ?case by (simp add: stableSort_def)
next
  case (Cons x xs)
  have ih: "sorted_wrt (\<lambda>a b. \<not> js_less (Fin 0) (cmp a b)) (stableSort cmp xs)"
  proof (rule Cons.IH)
    fix a b assume "a \<in> set xs" "b \<in> set xs" "js_less (Fin 0) (cmp a b)"
    then show "\<not> js_less (Fin 0) (cmp b a)" using Cons.prems(1) [of a b] by simp
  next
    fix a b c
    assume "a \<in> set xs" "b \<in> set xs" "c \<in> set xs"
      "\<not> js_less (Fin 0) (cmp a b)" "\<not> js_less (Fin 0) (cmp b c)"
    then show "\<not> js_less (Fin 0) (cmp a c)" using Cons.prems(2) [of a b c] by simp
  qed
  show ?case
    unfolding stableSort_Cons
  proof (rule sorted_wrt_insertBy [OF _ _ ih])
    fix b assume "b \<in> set (stableSort cmp xs)" "js_less (Fin 0) (cmp x b)"
    then show "\<not> js_less (Fin 0) (cmp b x)"
      using Cons.prems(1) [of x b] by (simp add: set_stableSort)
  next
    fix b c
    assume "b \<in> set (stableSort cmp xs)" "c \<in> set (stableSort cmp xs)"
      "\<not> js_less (Fin 0) (cmp x b)" "\<not> js_less (Fin 0) (cmp b c)"
    then show "\<not> js_less (Fin 0) (cmp x c)"
      using Cons.prems(2) [of x b c] by (simp add: set_stableSort)
  qed
qed

lemma stableSort_idem:
  assumes "sorted_wrt (\<lambda>a b. \<not> js_less (Fin 0) (cmp a b)) (stableSort cmp xs)"
  shows "stableSort cmp (stableSort cmp xs) = stableSort cmp xs"
  by (rule stableSort_in_order) (rule successively_if_sorted_wrt [OF assms])

text \<open>Consistent comparators, and the sort of the runtime.\<close>

lemma consistentOn_iff:
  "consistentOn cmp xs \<longleftrightarrow>
     (\<forall>a \<in> set xs. \<forall>b \<in> set xs.
        (js_less (Fin 0) (cmp a b) \<longrightarrow> \<not> js_less (Fin 0) (cmp b a)) \<and>
        (\<forall>c \<in> set xs. \<not> js_less (Fin 0) (cmp a b) \<and> \<not> js_less (Fin 0) (cmp b c) \<longrightarrow>
           \<not> js_less (Fin 0) (cmp a c)))"
  by (simp add: consistentOn_def list_all_iff) blast

lemma consistentOn_cong: "set xs = set ys \<Longrightarrow> consistentOn cmp xs = consistentOn cmp ys"
  by (simp add: consistentOn_iff)

lemma consistentOn_flip: "consistentOn (\<lambda>a b. cmp b a) xs = consistentOn cmp xs"
  unfolding consistentOn_iff by blast

lemma consistentOnI:
  assumes "\<And>x y. x \<in> set xs \<Longrightarrow> y \<in> set xs \<Longrightarrow> js_less (Fin 0) (cmp x y) \<Longrightarrow>
       \<not> js_less (Fin 0) (cmp y x)"
    and "\<And>x y z. x \<in> set xs \<Longrightarrow> y \<in> set xs \<Longrightarrow> z \<in> set xs \<Longrightarrow>
       \<not> js_less (Fin 0) (cmp x y) \<Longrightarrow> \<not> js_less (Fin 0) (cmp y z) \<Longrightarrow>
       \<not> js_less (Fin 0) (cmp x z)"
  shows "consistentOn cmp xs"
  unfolding consistentOn_iff using assms by blast

lemma sorted_wrt_stableSort_consistent:
  assumes "consistentOn cmp xs"
  shows "sorted_wrt (\<lambda>a b. \<not> js_less (Fin 0) (cmp a b)) (stableSort cmp xs)"
proof (rule sorted_wrt_stableSort)
  fix x y assume "x \<in> set xs" "y \<in> set xs" "js_less (Fin 0) (cmp x y)"
  with assms show "\<not> js_less (Fin 0) (cmp y x)" unfolding consistentOn_iff by blast
next
  fix x y z
  assume "x \<in> set xs" "y \<in> set xs" "z \<in> set xs"
    "\<not> js_less (Fin 0) (cmp x y)" "\<not> js_less (Fin 0) (cmp y z)"
  with assms show "\<not> js_less (Fin 0) (cmp x z)" unfolding consistentOn_iff by blast
qed

lemma js_sort_consistent: "consistentOn cmp xs \<Longrightarrow> js_sort B cmp xs = stableSort cmp xs"
  by (simp add: js_sort_def)

lemma mset_js_sort: "mset (js_sort B cmp xs) = mset xs"
  by (simp add: js_sort_def Let_def mset_stableSort)

lemma set_js_sort: "set (js_sort B cmp xs) = set xs"
  by (metis mset_js_sort set_mset_mset)

lemma js_sort_idem:
  assumes "consistentOn cmp xs"
  shows "js_sort B cmp (js_sort B cmp xs) = js_sort B cmp xs"
proof -
  have "consistentOn cmp (stableSort cmp xs)"
    using assms consistentOn_cong [OF set_stableSort] by blast
  then show ?thesis
    using assms
    by (simp add: js_sort_consistent stableSort_idem sorted_wrt_stableSort_consistent)
qed

lemma sorted_wrt_js_sort:
  assumes tot: "\<And>x y. x \<in> set xs \<Longrightarrow> y \<in> set xs \<Longrightarrow> js_less (Fin 0) (cmp x y) \<Longrightarrow>
       \<not> js_less (Fin 0) (cmp y x)"
    and trans: "\<And>x y z. x \<in> set xs \<Longrightarrow> y \<in> set xs \<Longrightarrow> z \<in> set xs \<Longrightarrow>
       \<not> js_less (Fin 0) (cmp x y) \<Longrightarrow> \<not> js_less (Fin 0) (cmp y z) \<Longrightarrow>
       \<not> js_less (Fin 0) (cmp x z)"
  shows "sorted_wrt (\<lambda>a b. \<not> js_less (Fin 0) (cmp a b)) (js_sort B cmp xs)"
proof -
  have c: "consistentOn cmp xs" by (rule consistentOnI) (fact tot, fact trans)
  then show ?thesis
    by (simp add: js_sort_consistent sorted_wrt_stableSort_consistent)
qed

text \<open>The comparator of the page.\<close>

lemma js_sub_pos: "x \<noteq> NaN \<Longrightarrow> y \<noteq> NaN \<Longrightarrow> js_less (Fin 0) (js_sub x y) = js_less y x"
  by (cases x; cases y) (simp_all add: js_sub_def)

lemma js_sub_neg: "x \<noteq> NaN \<Longrightarrow> y \<noteq> NaN \<Longrightarrow> js_less (js_sub x y) (Fin 0) = js_less x y"
  by (cases x; cases y) (simp_all add: js_sub_def)

lemma js_less_asym: "js_less x y \<Longrightarrow> \<not> js_less y x"
  by (cases x; cases y) simp_all

lemma not_js_less_iff: "x \<noteq> NaN \<Longrightarrow> y \<noteq> NaN \<Longrightarrow> \<not> js_less y x \<longleftrightarrow> js_le x y"
  by (cases x; cases y) auto

lemma js_le_trans: "js_le x y \<Longrightarrow> js_le y z \<Longrightarrow> js_le x z"
  by (cases x; cases y; cases z) auto

lemma compareRows_Desc: "compareRows B col Desc a b = compareRows B col Asc b a"
  by (simp add: compareRows_def Let_def)

lemma compareRows_numeric:
  assumes "\<not> isNaN_cell B (at_index a (int col))" "\<not> isNaN_cell B (at_index b (int col))"
  shows "compareRows B col Asc a b =
           js_sub (Number_cell B (at_index a (int col))) (Number_cell B (at_index b (int col)))"
  using assms by (simp add: compareRows_def Let_def)

lemma compareRows_string:
  assumes "isNaN_cell B (at_index a (int col)) \<or> isNaN_cell B (at_index b (int col))"
  shows "compareRows B col Asc a b =
           Fin (of_int (localeCompare B (String_cell B (at_index a (int col)))
                                        (String_cell B (at_index b (int col)))))"
  using assms by (auto simp: compareRows_def Let_def)

lemma compareRows_after_numeric:
  assumes "\<not> isNaN_cell B (at_index a (int col))" "\<not> isNaN_cell B (at_index b (int col))"
  shows "js_less (Fin 0) (compareRows B col Asc a b) \<longleftrightarrow>
           js_less (Number_cell B (at_index b (int col))) (Number_cell B (at_index a (int col)))"
    and "js_less (compareRows B col Asc a b) (Fin 0) \<longleftrightarrow>
           js_less (Number_cell B (at_index a (int col))) (Number_cell B (at_index b (int col)))"
  using assms
  by (simp_all add: compareRows_numeric js_sub_pos js_sub_neg isNaN_cell_def isNaN_num_def)

lemma compareRows_after_string:
  assumes "isNaN_cell B (at_index a (int col)) \<or> isNaN_cell B (at_index b (int col))"
  shows "js_less (Fin 0) (compareRows B col Asc a b) \<longleftrightarrow>
           0 < localeCompare B (String_cell B (at_index a (int col)))
                               (String_cell B (at_index b (int col)))"
  using assms by (simp add: compareRows_string)

lemma compareRows_Asc_asym:
  assumes lc: "\<And>s t. 0 < localeCompare B s t \<Longrightarrow> \<not> 0 < localeCompare B t s"
    and "js_less (Fin 0) (compareRows B col Asc a b)"
  shows "\<not> js_less (Fin 0) (compareRows B col Asc b a)"
proof (cases "isNaN_cell B (at_index a (int col)) \<or> isNaN_cell B (at_index b (int col))")
  case True
  then have "isNaN_cell B (at_index b (int col)) \<or> isNaN_cell B (at_index a (int col))" by blast
  with True assms(2) lc show ?thesis by (simp add: compareRows_after_string)
next
  case False
  with assms(2) show ?thesis by (simp add: compareRows_after_numeric js_less_asym)
qed

lemma mset_sortRows: "mset (sortRows B sc dir rows) = mset rows"
  by (cases sc) (simp_all add: sortRows_def mset_js_sort)

text \<open>A column of numbers is sorted by the order of the numbers.\<close>

lemma sortRows_numeric_Asc:
  assumes num: "\<And>r. r \<in> set rows \<Longrightarrow> \<not> isNaN_cell B (at_index r (int col))"
  shows "sorted_wrt (\<lambda>r s. js_le (Number_cell B (at_index r (int col)))
                               (Number_cell B (at_index s (int col))))
           (sortRows B (Some col) Asc rows)"
proof -
  let ?k = "\<lambda>r. Number_cell B (at_index r (int col))"
  have k: "?k r \<noteq> NaN" if "r \<in> set rows" for r
    using num [OF that] by (simp add: isNaN_cell_def isNaN_num_def)
  have after: "js_less (Fin 0) (compareRows B col Asc r s) \<longleftrightarrow> \<not> js_le (?k r) (?k s)"
    if "r \<in> set rows" "s \<in> set rows" for r s
    using num [OF that(1)] num [OF that(2)] k [OF that(1)] k [OF that(2)]
    by (simp add: compareRows_after_numeric not_js_less_iff [symmetric])
  have "sorted_wrt (\<lambda>a b. \<not> js_less (Fin 0) (compareRows B col Asc a b))
          (js_sort B (compareRows B col Asc) rows)"
  proof (rule sorted_wrt_js_sort)
    fix x y assume "x \<in> set rows" "y \<in> set rows" "js_less (Fin 0) (compareRows B col Asc x y)"
    then show "\<not> js_less (Fin 0) (compareRows B col Asc y x)"
      using num by (simp add: compareRows_after_numeric js_less_asym)
  next
    fix x y z
    assume "x \<in> set rows" "y \<in> set rows" "z \<in> set rows"
      "\<not> js_less (Fin 0) (compareRows B col Asc x y)"
      "\<not> js_less (Fin 0) (compareRows B col Asc y z)"
    then show "\<not> js_less (Fin 0) (compareRows B col Asc x z)"
      by (simp add: after) (rule js_le_trans)
  qed
  then have "sorted_wrt (\<lambda>r s. js_le (?k r) (?k s)) (js_sort B (compareRows B col Asc) rows)"
    by (rule sorted_wrt_mono_rel [rotated]) (simp add: set_js_sort after)
  then show ?thesis by (simp add: sortRows_def)
qed

lemma sortRows_numeric_Desc:
  assumes num: "\<And>r. r \<in> set rows \<Longrightarrow> \<not> isNaN_cell B (at_index r (int col))"
  shows "sorted_wrt (\<lambda>r s. js_ge (Number_cell B (at_index r (int col)))
                               (Number_cell B (at_index s (int col))))
           (sortRows B (Some col) Desc rows)"
proof -
  let ?k = "\<lambda>r. Number_cell B (at_index r (int col))"
  have k: "?k r \<noteq> NaN" if "r \<in> set rows" for r
    using num [OF that] by (simp add: isNaN_cell_def isNaN_num_def)
  have after: "js_less (Fin 0) (compareRows B col Desc r s) \<longleftrightarrow> \<not> js_ge (?k r) (?k s)"
    if "r \<in> set rows" "s \<in> set rows" for r s
    using num [OF that(1)] num [OF that(2)] k [OF that(1)] k [OF that(2)]
    by (simp add: compareRows_Desc compareRows_after_numeric not_js_less_iff [symmetric] js_ge_def)
  have "sorted_wrt (\<lambda>a b. \<not> js_less (Fin 0) (compareRows B col Desc a b))
          (js_sort B (compareRows B col Desc) rows)"
  proof (rule sorted_wrt_js_sort)
    fix x y assume "x \<in> set rows" "y \<in> set rows" "js_less (Fin 0) (compareRows B col Desc x y)"
    then show "\<not> js_less (Fin 0) (compareRows B col Desc y x)"
      using num by (simp add: compareRows_Desc compareRows_after_numeric js_less_asym)
  next
    fix x y z
    assume "x \<in> set rows" "y \<in> set rows" "z \<in> set rows"
      "\<not> js_less (Fin 0) (compareRows B col Desc x y)"
      "\<not> js_less (Fin 0) (compareRows B col Desc y z)"
    then show "\<not> js_less (Fin 0) (compareRows B col Desc x z)"
      by (simp add: after js_ge_def) (metis js_le_trans)
  qed
  then have "sorted_wrt (\<lambda>r s. js_ge (?k r) (?k s)) (js_sort B (compareRows B col Desc) rows)"
    by (rule sorted_wrt_mono_rel [rotated]) (simp add: set_js_sort after)
  then show ?thesis by (simp add: sortRows_def)
qed

text \<open>A column without numbers is sorted by \<open>localeCompare\<close>, when that is an ordering.\<close>

lemma sortRows_string_Asc:
  assumes str: "\<And>r. r \<in> set rows \<Longrightarrow> isNaN_cell B (at_index r (int col))"
    and lc: "\<And>s t. 0 < localeCompare B s t \<Longrightarrow> \<not> 0 < localeCompare B t s"
    and tr: "\<And>s t u. localeCompare B s t \<le> 0 \<Longrightarrow> localeCompare B t u \<le> 0 \<Longrightarrow>
               localeCompare B s u \<le> 0"
  shows "sorted_wrt (\<lambda>r s. localeCompare B (String_cell B (at_index r (int col)))
                                           (String_cell B (at_index s (int col))) \<le> 0)
           (sortRows B (Some col) Asc rows)"
proof -
  let ?k = "\<lambda>r. String_cell B (at_index r (int col))"
  have after: "js_less (Fin 0) (compareRows B col Asc r s) \<longleftrightarrow> \<not> localeCompare B (?k r) (?k s) \<le> 0"
    if "r \<in> set rows" for r s
    using str [OF that] by (simp add: compareRows_after_string not_le)
  have "sorted_wrt (\<lambda>a b. \<not> js_less (Fin 0) (compareRows B col Asc a b))
          (js_sort B (compareRows B col Asc) rows)"
  proof (rule sorted_wrt_js_sort)
    fix x y assume "js_less (Fin 0) (compareRows B col Asc x y)"
    with lc show "\<not> js_less (Fin 0) (compareRows B col Asc y x)"
      by (rule compareRows_Asc_asym)
  next
    fix x y z
    assume "x \<in> set rows" "y \<in> set rows" "z \<in> set rows"
      "\<not> js_less (Fin 0) (compareRows B col Asc x y)"
      "\<not> js_less (Fin 0) (compareRows B col Asc y z)"
    then show "\<not> js_less (Fin 0) (compareRows B col Asc x z)"
      by (simp add: after) (rule tr)
  qed
  then have "sorted_wrt (\<lambda>r s. localeCompare B (?k r) (?k s) \<le> 0)
               (js_sort B (compareRows B col Asc) rows)"
    by (rule sorted_wrt_mono_rel [rotated]) (simp add: set_js_sort after)
  then show ?thesis by (simp add: sortRows_def)
qed

text \<open>When the comparator of the page is a consistent ordering.\<close>

lemma compareRows_Desc_fun: "compareRows B col Desc = (\<lambda>a b. compareRows B col Asc b a)"
  by (intro ext) (rule compareRows_Desc)

lemma consistentOn_Desc:
  "consistentOn (compareRows B col Desc) rows = consistentOn (compareRows B col Asc) rows"
  unfolding compareRows_Desc_fun by (rule consistentOn_flip)

lemma consistentOn_numeric:
  assumes num: "\<And>r. r \<in> set rows \<Longrightarrow> \<not> isNaN_cell B (at_index r (int col))"
  shows "consistentOn (compareRows B col dir) rows"
proof -
  let ?k = "\<lambda>r. Number_cell B (at_index r (int col))"
  have k: "?k r \<noteq> NaN" if "r \<in> set rows" for r
    using num [OF that] by (simp add: isNaN_cell_def isNaN_num_def)
  have after: "js_less (Fin 0) (compareRows B col Asc r s) \<longleftrightarrow> \<not> js_le (?k r) (?k s)"
    if "r \<in> set rows" "s \<in> set rows" for r s
    using num [OF that(1)] num [OF that(2)] k [OF that(1)] k [OF that(2)]
    by (simp add: compareRows_after_numeric not_js_less_iff [symmetric])
  have "consistentOn (compareRows B col Asc) rows"
  proof (rule consistentOnI)
    fix x y assume "x \<in> set rows" "y \<in> set rows" "js_less (Fin 0) (compareRows B col Asc x y)"
    then show "\<not> js_less (Fin 0) (compareRows B col Asc y x)"
      using num by (simp add: compareRows_after_numeric js_less_asym)
  next
    fix x y z
    assume "x \<in> set rows" "y \<in> set rows" "z \<in> set rows"
      "\<not> js_less (Fin 0) (compareRows B col Asc x y)"
      "\<not> js_less (Fin 0) (compareRows B col Asc y z)"
    then show "\<not> js_less (Fin 0) (compareRows B col Asc x z)"
      by (simp add: after) (rule js_le_trans)
  qed
  then show ?thesis by (cases dir) (simp_all add: consistentOn_Desc)
qed

lemma consistentOn_string:
  assumes str: "\<And>r. r \<in> set rows \<Longrightarrow> isNaN_cell B (at_index r (int col))"
    and lc: "\<And>s t. 0 < localeCompare B s t \<Longrightarrow> \<not> 0 < localeCompare B t s"
    and tr: "\<And>s t u. localeCompare B s t \<le> 0 \<Longrightarrow> localeCompare B t u \<le> 0 \<Longrightarrow>
               localeCompare B s u \<le> 0"
  shows "consistentOn (compareRows B col dir) rows"
proof -
  let ?k = "\<lambda>r. String_cell B (at_index r (int col))"
  have after: "js_less (Fin 0) (compareRows B col Asc r s) \<longleftrightarrow> \<not> localeCompare B (?k r) (?k s) \<le> 0"
    if "r \<in> set rows" for r s
    using str [OF that] by (simp add: compareRows_after_string not_le)
  have "consistentOn (compareRows B col Asc) rows"
  proof (rule consistentOnI)
    fix x y assume "js_less (Fin 0) (compareRows B col Asc x y)"
    with lc show "\<not> js_less (Fin 0) (compareRows B col Asc y x)"
      by (rule compareRows_Asc_asym)
  next
    fix x y z
    assume "x \<in> set rows" "y \<in> set rows" "z \<in> set rows"
      "\<not> js_less (Fin 0) (compareRows B col Asc x y)"
      "\<not> js_less (Fin 0) (compareRows B col Asc y z)"
    then show "\<not> js_less (Fin 0) (compareRows B col Asc x z)"
      by (simp add: after) (rule tr)
  qed
  then show ?thesis by (cases dir) (simp_all add: consistentOn_Desc)
qed

text \<open>The sort statement on the store.\<close>

lemma sortStatement_store:
  assumes "i < length h"
  shows "take (length h) (fst (sortStatement B sc dir h i)) = h"
    and "fst (sortStatement B sc dir h i) ! snd (sortStatement B sc dir h i) =
           sortRows B sc dir (h ! i)"
  using assms
  by (cases sc; simp add: sortStatement_def spread_def sort_in_place_def sortRows_def
        nth_append)+

text \<open>The ordering of the example runtime.\<close>

lemma exLocaleCompare_asym: "0 < exLocaleCompare s t \<Longrightarrow> \<not> 0 < exLocaleCompare t s"
proof (induction s arbitrary: t)
  case Nil
  then show ?case by (cases t) simp_all
next
  case (Cons a as)
  show ?case
  proof (cases t)
    case Nil
    then show ?thesis by simp
  next
    case (Cons b bs)
    show ?thesis
    proof (cases "(of_char a :: nat) = of_char b")
      case True
      with Cons Cons.prems Cons.IH [of bs] show ?thesis by simp
    next
      case False
      with Cons Cons.prems show ?thesis by (simp split: if_splits)
    qed
  qed
qed

lemma exLocaleCompare_trans:
  "exLocaleCompare s t \<le> 0 \<Longrightarrow> exLocaleCompare t u \<le> 0 \<Longrightarrow> exLocaleCompare s u \<le> 0"
proof (induction s arbitrary: t u)
  case Nil
  then show ?case by (cases u) simp_all
next
  case (Cons a as)
  from Cons.prems(1) obtain b bs where t: "t = b # bs" by (cases t) simp_all
  from Cons.prems(2) t obtain c cs where u: "u = c # cs" by (cases u) simp_all
  from Cons.prems(1) t have ab: "(of_char a :: nat) \<le> of_char b"
    by (simp split: if_splits)
  from Cons.prems(2) t u have bc: "(of_char b :: nat) \<le> of_char c"
    by (simp split: if_splits)
  show ?case
  proof (cases "(of_char a :: nat) < of_char c")
    case True
    with u show ?thesis by simp
  next
    case False
    with ab bc have "(of_char a :: nat) = of_char b \<and> (of_char b :: nat) = of_char c"
      by linarith
    then have e: "a = b" "b = c" by simp_all
    with Cons.prems t u have "exLocaleCompare as bs \<le> 0" "exLocaleCompare bs cs \<le> 0"
      by simp_all
    then have "exLocaleCompare as cs \<le> 0" by (rule Cons.IH)
    with e u show ?thesis by simp
  qed
qed

text \<open>
  C4 (amended). Where the comparator is a consistent ordering of the rows, sorting is
  idempotent and stable, for every sort column and direction: sorting the sorted rows
  again returns them unchanged; rows of which none has to come after its successor are
  returned unchanged; and rows that compare as ties among each other keep their relative
  order. The comparator is a consistent ordering when every cell of the sort column
  coerces to a number, and when none does and \<open>localeCompare\<close> is an ordering. Without a
  sort column the rows are returned as they are.
\<close>

theorem sortRows_stable_when_consistent:
  "(consistentOn (compareRows B col dir) rows \<longrightarrow>
      sortRows B (Some col) dir (sortRows B (Some col) dir rows) = sortRows B (Some col) dir rows \<and>
      (successively (\<lambda>a b. \<not> js_less (Fin 0) (compareRows B col dir a b)) rows \<longrightarrow>
         sortRows B (Some col) dir rows = rows) \<and>
      ((\<forall>a \<in> set rows. \<forall>b \<in> set rows. P a \<and> P b \<longrightarrow>
           \<not> js_less (Fin 0) (compareRows B col dir a b)) \<longrightarrow>
         filter P (sortRows B (Some col) dir rows) = filter P rows)) \<and>
   ((\<forall>r \<in> set rows. \<not> isNaN_cell B (at_index r (int col))) \<longrightarrow>
      consistentOn (compareRows B col dir) rows) \<and>
   ((\<forall>r \<in> set rows. isNaN_cell B (at_index r (int col))) \<and>
    (\<forall>s t. 0 < localeCompare B s t \<longrightarrow> \<not> 0 < localeCompare B t s) \<and>
    (\<forall>s t u. localeCompare B s t \<le> 0 \<and> localeCompare B t u \<le> 0 \<longrightarrow>
               localeCompare B s u \<le> 0) \<longrightarrow>
      consistentOn (compareRows B col dir) rows) \<and>
   sortRows B None dir rows = rows"
proof -
  have a: "consistentOn (compareRows B col dir) rows \<longrightarrow>
      sortRows B (Some col) dir (sortRows B (Some col) dir rows) = sortRows B (Some col) dir rows \<and>
      (successively (\<lambda>a b. \<not> js_less (Fin 0) (compareRows B col dir a b)) rows \<longrightarrow>
         sortRows B (Some col) dir rows = rows) \<and>
      ((\<forall>a \<in> set rows. \<forall>b \<in> set rows. P a \<and> P b \<longrightarrow>
           \<not> js_less (Fin 0) (compareRows B col dir a b)) \<longrightarrow>
         filter P (sortRows B (Some col) dir rows) = filter P rows)"
  proof (intro impI conjI)
    assume c: "consistentOn (compareRows B col dir) rows"
    then show "sortRows B (Some col) dir (sortRows B (Some col) dir rows) =
               sortRows B (Some col) dir rows"
      by (simp add: sortRows_def js_sort_idem)
    {
      assume "successively (\<lambda>a b. \<not> js_less (Fin 0) (compareRows B col dir a b)) rows"
      with c show "sortRows B (Some col) dir rows = rows"
        by (simp add: sortRows_def js_sort_consistent stableSort_in_order)
    }
    {
      assume "\<forall>a \<in> set rows. \<forall>b \<in> set rows. P a \<and> P b \<longrightarrow>
           \<not> js_less (Fin 0) (compareRows B col dir a b)"
      then have "filter P (stableSort (compareRows B col dir) rows) = filter P rows"
        by (intro filter_stableSort) blast
      with c show "filter P (sortRows B (Some col) dir rows) = filter P rows"
        by (simp add: sortRows_def js_sort_consistent)
    }
  qed
  have n: "(\<forall>r \<in> set rows. \<not> isNaN_cell B (at_index r (int col))) \<longrightarrow>
      consistentOn (compareRows B col dir) rows"
    using consistentOn_numeric [of rows B col dir] by blast
  have s: "(\<forall>r \<in> set rows. isNaN_cell B (at_index r (int col))) \<and>
    (\<forall>s t. 0 < localeCompare B s t \<longrightarrow> \<not> 0 < localeCompare B t s) \<and>
    (\<forall>s t u. localeCompare B s t \<le> 0 \<and> localeCompare B t u \<le> 0 \<longrightarrow>
               localeCompare B s u \<le> 0) \<longrightarrow>
      consistentOn (compareRows B col dir) rows"
  proof
    assume h: "(\<forall>r \<in> set rows. isNaN_cell B (at_index r (int col))) \<and>
      (\<forall>s t. 0 < localeCompare B s t \<longrightarrow> \<not> 0 < localeCompare B t s) \<and>
      (\<forall>s t u. localeCompare B s t \<le> 0 \<and> localeCompare B t u \<le> 0 \<longrightarrow>
               localeCompare B s u \<le> 0)"
    show "consistentOn (compareRows B col dir) rows"
    proof (rule consistentOn_string)
      fix r assume "r \<in> set rows"
      with h show "isNaN_cell B (at_index r (int col))" by blast
    next
      fix s t assume "0 < localeCompare B s t"
      with h show "\<not> 0 < localeCompare B t s" by blast
    next
      fix s t u assume "localeCompare B s t \<le> 0" "localeCompare B t u \<le> 0"
      with h show "localeCompare B s u \<le> 0" by blast
    qed
  qed
  have e: "sortRows B None dir rows = rows" by (simp add: sortRows_def)
  from a n s e show ?thesis by (intro conjI)
qed

theorem sortRows_stable_when_consistent_witness:
  "consistentOn (compareRows exampleRuntime 1 Asc)
     [[CStr ''b'', CStr ''1''], [CStr ''a'', CStr ''1''], [CStr ''c'', CStr ''0'']] \<and>
   sortRows exampleRuntime (Some 1) Asc
     [[CStr ''b'', CStr ''1''], [CStr ''a'', CStr ''1''], [CStr ''c'', CStr ''0'']] =
     [[CStr ''c'', CStr ''0''], [CStr ''b'', CStr ''1''], [CStr ''a'', CStr ''1'']] \<and>
   sortRows exampleRuntime (Some 1) Asc
     [[CStr ''c'', CStr ''0''], [CStr ''b'', CStr ''1''], [CStr ''a'', CStr ''1'']] =
     [[CStr ''c'', CStr ''0''], [CStr ''b'', CStr ''1''], [CStr ''a'', CStr ''1'']] \<and>
   filter (\<lambda>r. at_index r 1 = CStr ''1'')
     (sortRows exampleRuntime (Some 1) Asc
        [[CStr ''b'', CStr ''1''], [CStr ''a'', CStr ''1''], [CStr ''c'', CStr ''0'']]) =
     [[CStr ''b'', CStr ''1''], [CStr ''a'', CStr ''1'']] \<and>
   consistentOn (compareRows exampleRuntime 0 Desc)
     [[CStr ''b'', CStr ''1''], [CStr ''a'', CStr ''1''], [CStr ''c'', CStr ''0'']]"
proof -
  let ?rows = "[[CStr ''b'', CStr ''1''], [CStr ''a'', CStr ''1''], [CStr ''c'', CStr ''0'']]"
  let ?sorted = "[[CStr ''c'', CStr ''0''], [CStr ''b'', CStr ''1''], [CStr ''a'', CStr ''1'']]"
  let ?P = "\<lambda>r. at_index r 1 = CStr ''1''"
  let ?B = exampleRuntime
  note t = sortRows_stable_when_consistent [of ?B 1 Asc ?rows ?P]
  have num: "\<forall>r \<in> set ?rows. \<not> isNaN_cell ?B (at_index r (int 1))" by code_simp
  with t [THEN conjunct2, THEN conjunct1]
  have c: "consistentOn (compareRows ?B 1 Asc) ?rows" by blast
  have s: "sortRows ?B (Some 1) Asc ?rows = ?sorted" by code_simp
  from t [THEN conjunct1] c
  have "sortRows ?B (Some 1) Asc (sortRows ?B (Some 1) Asc ?rows) = sortRows ?B (Some 1) Asc ?rows"
    by blast
  then have i: "sortRows ?B (Some 1) Asc ?sorted = ?sorted" unfolding s .
  have c': "consistentOn (compareRows ?B 1 Asc) ?sorted" by code_simp
  have "successively (\<lambda>a b. \<not> js_less (Fin 0) (compareRows ?B 1 Asc a b)) ?sorted"
    by code_simp
  with sortRows_stable_when_consistent [of ?B 1 Asc ?sorted ?P, THEN conjunct1] c'
  have "sortRows ?B (Some 1) Asc ?sorted = ?sorted" by blast
  have ties: "\<forall>a \<in> set ?rows. \<forall>b \<in> set ?rows. ?P a \<and> ?P b \<longrightarrow>
         \<not> js_less (Fin 0) (compareRows ?B 1 Asc a b)"
    by code_simp
  from t [THEN conjunct1] c ties
  have f: "filter ?P (sortRows ?B (Some 1) Asc ?rows) = filter ?P ?rows"
    by blast
  have "filter ?P ?rows = [[CStr ''b'', CStr ''1''], [CStr ''a'', CStr ''1'']]"
    by code_simp
  with f have f': "filter ?P (sortRows ?B (Some 1) Asc ?rows) =
                   [[CStr ''b'', CStr ''1''], [CStr ''a'', CStr ''1'']]"
    by simp
  have str: "\<forall>r \<in> set ?rows. isNaN_cell ?B (at_index r (int 0))" by code_simp
  have lc: "\<forall>s t. 0 < localeCompare ?B s t \<longrightarrow> \<not> 0 < localeCompare ?B t s"
    by (simp add: exampleRuntime_def exLocaleCompare_asym)
  have tr: "\<forall>s t u. localeCompare ?B s t \<le> 0 \<and> localeCompare ?B t u \<le> 0 \<longrightarrow>
               localeCompare ?B s u \<le> 0"
    using exLocaleCompare_trans by (auto simp: exampleRuntime_def)
  from sortRows_stable_when_consistent
         [of ?B 0 Desc ?rows ?P, THEN conjunct2, THEN conjunct2, THEN conjunct1] str lc tr
  have d: "consistentOn (compareRows ?B 0 Desc) ?rows" by blast
  from c s i f' d show ?thesis by (intro conjI)
qed

theorem sortRows_unstable_counterexample:
  "compareRows exampleRuntime 0 Desc [CStr ''2'', CStr ''r0''] [CStr ''2'', CStr ''r3''] = Fin 0 \<and>
   compareRows exampleRuntime 0 Desc [CStr ''2'', CStr ''r3''] [CStr ''2'', CStr ''r0''] = Fin 0 \<and>
   filter (\<lambda>r. at_index r 0 = CStr ''2'')
     [[CStr ''2'', CStr ''r0''], [CStr ''10'', CStr ''r1''], [CStr ''1a'', CStr ''r2''],
      [CStr ''2'', CStr ''r3'']] =
     [[CStr ''2'', CStr ''r0''], [CStr ''2'', CStr ''r3'']] \<and>
   sortRows exampleRuntime (Some 0) Desc
     [[CStr ''2'', CStr ''r0''], [CStr ''10'', CStr ''r1''], [CStr ''1a'', CStr ''r2''],
      [CStr ''2'', CStr ''r3'']] =
     [[CStr ''2'', CStr ''r3''], [CStr ''1a'', CStr ''r2''], [CStr ''10'', CStr ''r1''],
      [CStr ''2'', CStr ''r0'']] \<and>
   filter (\<lambda>r. at_index r 0 = CStr ''2'')
     (sortRows exampleRuntime (Some 0) Desc
        [[CStr ''2'', CStr ''r0''], [CStr ''10'', CStr ''r1''], [CStr ''1a'', CStr ''r2''],
         [CStr ''2'', CStr ''r3'']]) =
     [[CStr ''2'', CStr ''r3''], [CStr ''2'', CStr ''r0'']] \<and>
   js_less (Fin 0) (compareRows exampleRuntime 0 Desc [CStr ''2'', CStr ''r0''] [CStr ''10'', CStr ''r1'']) \<and>
   js_less (Fin 0) (compareRows exampleRuntime 0 Desc [CStr ''1a'', CStr ''r2''] [CStr ''2'', CStr ''r0'']) \<and>
   js_less (Fin 0) (compareRows exampleRuntime 0 Desc [CStr ''10'', CStr ''r1''] [CStr ''1a'', CStr ''r2''])"
proof -
  let ?rows = "[[CStr ''2'', CStr ''r0''], [CStr ''10'', CStr ''r1''], [CStr ''1a'', CStr ''r2''],
                [CStr ''2'', CStr ''r3'']]"
  have a: "compareRows exampleRuntime 0 Desc [CStr ''2'', CStr ''r0''] [CStr ''2'', CStr ''r3''] = Fin 0"
    by code_simp
  have b: "compareRows exampleRuntime 0 Desc [CStr ''2'', CStr ''r3''] [CStr ''2'', CStr ''r0''] = Fin 0"
    by code_simp
  have c: "filter (\<lambda>r. at_index r 0 = CStr ''2'') ?rows =
           [[CStr ''2'', CStr ''r0''], [CStr ''2'', CStr ''r3'']]"
    by code_simp
  have d: "sortRows exampleRuntime (Some 0) Desc ?rows =
     [[CStr ''2'', CStr ''r3''], [CStr ''1a'', CStr ''r2''], [CStr ''10'', CStr ''r1''],
      [CStr ''2'', CStr ''r0'']]"
    by code_simp
  have e: "filter (\<lambda>r. at_index r 0 = CStr ''2'') (sortRows exampleRuntime (Some 0) Desc ?rows) =
     [[CStr ''2'', CStr ''r3''], [CStr ''2'', CStr ''r0'']]"
    unfolding d by code_simp
  have f: "js_less (Fin 0)
     (compareRows exampleRuntime 0 Desc [CStr ''2'', CStr ''r0''] [CStr ''10'', CStr ''r1''])"
    by code_simp
  have g: "js_less (Fin 0)
     (compareRows exampleRuntime 0 Desc [CStr ''1a'', CStr ''r2''] [CStr ''2'', CStr ''r0''])"
    by code_simp
  have h: "js_less (Fin 0)
     (compareRows exampleRuntime 0 Desc [CStr ''10'', CStr ''r1''] [CStr ''1a'', CStr ''r2''])"
    by code_simp
  from a b c d e f g h show ?thesis by (intro conjI)
qed

text \<open>
  C5. For every pair of rows and every sort column: when the cells of both rows coerce
  to numbers other than \<open>NaN\<close> the comparator orders the rows by these numbers, and
  otherwise it is \<open>localeCompare\<close> on the cells as strings; with the direction
  descending it is the ascending comparator with its arguments exchanged. So a column of
  numbers comes out in ascending, respectively descending, order of the numbers, and a
  column without numbers in the order of \<open>localeCompare\<close>, when that is an ordering.
  The sorted rows are a permutation of the input. The sort statement sorts a new array:
  every array that the store held before, the input among them, is unchanged.
\<close>

theorem compareRows_orders:
  "(\<not> isNaN_cell B (at_index a (int col)) \<and> \<not> isNaN_cell B (at_index b (int col)) \<longrightarrow>
      compareRows B col Asc a b =
        js_sub (Number_cell B (at_index a (int col))) (Number_cell B (at_index b (int col))) \<and>
      (js_less (compareRows B col Asc a b) (Fin 0) \<longleftrightarrow>
         js_less (Number_cell B (at_index a (int col))) (Number_cell B (at_index b (int col)))) \<and>
      (js_less (Fin 0) (compareRows B col Asc a b) \<longleftrightarrow>
         js_less (Number_cell B (at_index b (int col))) (Number_cell B (at_index a (int col))))) \<and>
   (isNaN_cell B (at_index a (int col)) \<or> isNaN_cell B (at_index b (int col)) \<longrightarrow>
      compareRows B col Asc a b =
        Fin (of_int (localeCompare B (String_cell B (at_index a (int col)))
                                     (String_cell B (at_index b (int col)))))) \<and>
   compareRows B col Desc a b = compareRows B col Asc b a \<and>
   ((\<forall>r \<in> set rows. \<not> isNaN_cell B (at_index r (int col))) \<longrightarrow>
      sorted_wrt (\<lambda>r s. js_le (Number_cell B (at_index r (int col)))
                              (Number_cell B (at_index s (int col))))
        (sortRows B (Some col) Asc rows) \<and>
      sorted_wrt (\<lambda>r s. js_ge (Number_cell B (at_index r (int col)))
                              (Number_cell B (at_index s (int col))))
        (sortRows B (Some col) Desc rows)) \<and>
   ((\<forall>r \<in> set rows. isNaN_cell B (at_index r (int col))) \<and>
    (\<forall>s t. 0 < localeCompare B s t \<longrightarrow> \<not> 0 < localeCompare B t s) \<and>
    (\<forall>s t u. localeCompare B s t \<le> 0 \<and> localeCompare B t u \<le> 0 \<longrightarrow>
               localeCompare B s u \<le> 0) \<longrightarrow>
      sorted_wrt (\<lambda>r s. localeCompare B (String_cell B (at_index r (int col)))
                                          (String_cell B (at_index s (int col))) \<le> 0)
        (sortRows B (Some col) Asc rows)) \<and>
   mset (sortRows B sc dir rows) = mset rows \<and>
   (i < length h \<longrightarrow>
      take (length h) (fst (sortStatement B sc dir h i)) = h \<and>
      fst (sortStatement B sc dir h i) ! snd (sortStatement B sc dir h i) =
        sortRows B sc dir (h ! i))"
proof -
  have n: "\<not> isNaN_cell B (at_index a (int col)) \<and> \<not> isNaN_cell B (at_index b (int col)) \<longrightarrow>
      compareRows B col Asc a b =
        js_sub (Number_cell B (at_index a (int col))) (Number_cell B (at_index b (int col))) \<and>
      (js_less (compareRows B col Asc a b) (Fin 0) \<longleftrightarrow>
         js_less (Number_cell B (at_index a (int col))) (Number_cell B (at_index b (int col)))) \<and>
      (js_less (Fin 0) (compareRows B col Asc a b) \<longleftrightarrow>
         js_less (Number_cell B (at_index b (int col))) (Number_cell B (at_index a (int col))))"
    using compareRows_numeric [of B a col b] compareRows_after_numeric [of B a col b] by blast
  have s: "isNaN_cell B (at_index a (int col)) \<or> isNaN_cell B (at_index b (int col)) \<longrightarrow>
      compareRows B col Asc a b =
        Fin (of_int (localeCompare B (String_cell B (at_index a (int col)))
                                     (String_cell B (at_index b (int col)))))"
    using compareRows_string [of B a col b] by blast
  have d: "compareRows B col Desc a b = compareRows B col Asc b a"
    by (rule compareRows_Desc)
  have o: "(\<forall>r \<in> set rows. \<not> isNaN_cell B (at_index r (int col))) \<longrightarrow>
      sorted_wrt (\<lambda>r s. js_le (Number_cell B (at_index r (int col)))
                              (Number_cell B (at_index s (int col))))
        (sortRows B (Some col) Asc rows) \<and>
      sorted_wrt (\<lambda>r s. js_ge (Number_cell B (at_index r (int col)))
                              (Number_cell B (at_index s (int col))))
        (sortRows B (Some col) Desc rows)"
    using sortRows_numeric_Asc [of rows B col] sortRows_numeric_Desc [of rows B col] by blast
  have l: "(\<forall>r \<in> set rows. isNaN_cell B (at_index r (int col))) \<and>
    (\<forall>s t. 0 < localeCompare B s t \<longrightarrow> \<not> 0 < localeCompare B t s) \<and>
    (\<forall>s t u. localeCompare B s t \<le> 0 \<and> localeCompare B t u \<le> 0 \<longrightarrow>
               localeCompare B s u \<le> 0) \<longrightarrow>
      sorted_wrt (\<lambda>r s. localeCompare B (String_cell B (at_index r (int col)))
                                          (String_cell B (at_index s (int col))) \<le> 0)
        (sortRows B (Some col) Asc rows)"
  proof
    assume a: "(\<forall>r \<in> set rows. isNaN_cell B (at_index r (int col))) \<and>
      (\<forall>s t. 0 < localeCompare B s t \<longrightarrow> \<not> 0 < localeCompare B t s) \<and>
      (\<forall>s t u. localeCompare B s t \<le> 0 \<and> localeCompare B t u \<le> 0 \<longrightarrow>
               localeCompare B s u \<le> 0)"
    show "sorted_wrt (\<lambda>r s. localeCompare B (String_cell B (at_index r (int col)))
                                          (String_cell B (at_index s (int col))) \<le> 0)
        (sortRows B (Some col) Asc rows)"
    proof (rule sortRows_string_Asc)
      fix r assume "r \<in> set rows"
      with a show "isNaN_cell B (at_index r (int col))" by blast
    next
      fix s t assume "0 < localeCompare B s t"
      with a show "\<not> 0 < localeCompare B t s" by blast
    next
      fix s t u assume "localeCompare B s t \<le> 0" "localeCompare B t u \<le> 0"
      with a show "localeCompare B s u \<le> 0" by blast
    qed
  qed
  have m: "mset (sortRows B sc dir rows) = mset rows"
    by (rule mset_sortRows)
  have st: "i < length h \<longrightarrow>
      take (length h) (fst (sortStatement B sc dir h i)) = h \<and>
      fst (sortStatement B sc dir h i) ! snd (sortStatement B sc dir h i) =
        sortRows B sc dir (h ! i)"
    using sortStatement_store [of i h B sc dir] by blast
  from n s d o l m st show ?thesis by (intro conjI)
qed

theorem compareRows_orders_witness:
  "compareRows exampleRuntime 1 Asc
     [CStr ''2024-01-01'', CStr ''100'', CStr ''5''] [CStr ''2024-01-02'', CStr ''200'', CStr ''10'']
     = Fin (- 100) \<and>
   compareRows exampleRuntime 0 Asc
     [CStr ''2024-01-01'', CStr ''100'', CStr ''5''] [CStr ''2024-01-02'', CStr ''200'', CStr ''10'']
     = Fin (- 1) \<and>
   sortRows exampleRuntime (Some 1) Desc
     [[CStr ''2024-01-01'', CStr ''100'', CStr ''5''],
      [CStr ''2024-01-02'', CStr ''200'', CStr ''10'']] =
     [[CStr ''2024-01-02'', CStr ''200'', CStr ''10''],
      [CStr ''2024-01-01'', CStr ''100'', CStr ''5'']] \<and>
   sorted_wrt (\<lambda>r s. js_ge (Number_cell exampleRuntime (at_index r 1))
                           (Number_cell exampleRuntime (at_index s 1)))
     [[CStr ''2024-01-02'', CStr ''200'', CStr ''10''],
      [CStr ''2024-01-01'', CStr ''100'', CStr ''5'']] \<and>
   sorted_wrt (\<lambda>r s. exLocaleCompare (String_cell exampleRuntime (at_index r 0))
                                      (String_cell exampleRuntime (at_index s 0)) \<le> 0)
     (sortRows exampleRuntime (Some 0) Asc
       [[CStr ''2024-01-02'', CStr ''200'', CStr ''10''],
        [CStr ''2024-01-01'', CStr ''100'', CStr ''5'']]) \<and>
   fst (sortStatement exampleRuntime (Some 1) Desc
     [[[CStr ''2024-01-01'', CStr ''100'', CStr ''5''],
       [CStr ''2024-01-02'', CStr ''200'', CStr ''10'']]] 0) =
     [[[CStr ''2024-01-01'', CStr ''100'', CStr ''5''],
       [CStr ''2024-01-02'', CStr ''200'', CStr ''10'']],
      [[CStr ''2024-01-02'', CStr ''200'', CStr ''10''],
       [CStr ''2024-01-01'', CStr ''100'', CStr ''5'']]] \<and>
   take 1 (fst (sortStatement exampleRuntime (Some 1) Desc
     [[[CStr ''2024-01-01'', CStr ''100'', CStr ''5''],
       [CStr ''2024-01-02'', CStr ''200'', CStr ''10'']]] 0)) =
     [[[CStr ''2024-01-01'', CStr ''100'', CStr ''5''],
       [CStr ''2024-01-02'', CStr ''200'', CStr ''10'']]]"
proof -
  let ?a = "[CStr ''2024-01-01'', CStr ''100'', CStr ''5'']"
  let ?b = "[CStr ''2024-01-02'', CStr ''200'', CStr ''10'']"
  let ?B = exampleRuntime
  note num = compareRows_orders [of ?B ?a 1 ?b "[?a, ?b]" "Some 1" Desc 0 "[[?a, ?b]]"]
  note str = compareRows_orders [of ?B ?a 0 ?b "[?b, ?a]" "Some 0" Asc 0 "[[?a, ?b]]"]
  have na: "\<not> isNaN_cell ?B (at_index ?a (int 1)) \<and> \<not> isNaN_cell ?B (at_index ?b (int 1))"
    by code_simp
  have sa: "isNaN_cell ?B (at_index ?a (int 0)) \<or> isNaN_cell ?B (at_index ?b (int 0))"
    by code_simp
  have c1: "compareRows ?B 1 Asc ?a ?b = Fin (- 100)"
  proof -
    from num [THEN conjunct1] na
    have "compareRows ?B 1 Asc ?a ?b =
            js_sub (Number_cell ?B (at_index ?a (int 1))) (Number_cell ?B (at_index ?b (int 1)))"
      by blast
    also have "\<dots> = Fin (- 100)" by code_simp
    finally show ?thesis .
  qed
  have c0: "compareRows ?B 0 Asc ?a ?b = Fin (- 1)"
  proof -
    from str [THEN conjunct2, THEN conjunct1] sa
    have "compareRows ?B 0 Asc ?a ?b =
            Fin (of_int (localeCompare ?B (String_cell ?B (at_index ?a (int 0)))
                                          (String_cell ?B (at_index ?b (int 0)))))"
      by blast
    also have "\<dots> = Fin (- 1)" by code_simp
    finally show ?thesis .
  qed
  have sd: "sortRows ?B (Some 1) Desc [?a, ?b] = [?b, ?a]" by code_simp
  have alln: "\<forall>r \<in> set [?a, ?b]. \<not> isNaN_cell ?B (at_index r (int 1))" by code_simp
  from num [THEN conjunct2, THEN conjunct2, THEN conjunct2, THEN conjunct1] alln
  have "sorted_wrt (\<lambda>r s. js_ge (Number_cell ?B (at_index r (int 1)))
                               (Number_cell ?B (at_index s (int 1))))
          (sortRows ?B (Some 1) Desc [?a, ?b])"
    by blast
  then have o: "sorted_wrt (\<lambda>r s. js_ge (Number_cell ?B (at_index r 1))
                               (Number_cell ?B (at_index s 1))) [?b, ?a]"
    unfolding sd by simp
  have alls: "\<forall>r \<in> set [?b, ?a]. isNaN_cell ?B (at_index r (int 0))" by code_simp
  have lc: "\<forall>s t. 0 < localeCompare ?B s t \<longrightarrow> \<not> 0 < localeCompare ?B t s"
    by (simp add: exampleRuntime_def exLocaleCompare_asym)
  have tr: "\<forall>s t u. localeCompare ?B s t \<le> 0 \<and> localeCompare ?B t u \<le> 0 \<longrightarrow>
               localeCompare ?B s u \<le> 0"
    using exLocaleCompare_trans by (auto simp: exampleRuntime_def)
  from str [THEN conjunct2, THEN conjunct2, THEN conjunct2, THEN conjunct2, THEN conjunct1]
    alls lc tr
  have "sorted_wrt (\<lambda>r s. localeCompare ?B (String_cell ?B (at_index r (int 0)))
                                          (String_cell ?B (at_index s (int 0))) \<le> 0)
          (sortRows ?B (Some 0) Asc [?b, ?a])"
    by blast
  then have l: "sorted_wrt (\<lambda>r s. exLocaleCompare (String_cell ?B (at_index r 0))
                                      (String_cell ?B (at_index s 0)) \<le> 0)
          (sortRows ?B (Some 0) Asc [?b, ?a])"
    by (simp add: exampleRuntime_def)
  have h: "fst (sortStatement ?B (Some 1) Desc [[?a, ?b]] 0) = [[?a, ?b], [?b, ?a]]"
    by code_simp
  from num [THEN conjunct2, THEN conjunct2, THEN conjunct2, THEN conjunct2, THEN conjunct2,
            THEN conjunct2]
  have k: "take 1 (fst (sortStatement ?B (Some 1) Desc [[?a, ?b]] 0)) = [[?a, ?b]]"
    by simp
  from c1 c0 sd o l h k show ?thesis by (intro conjI)
qed

end
